theory Spec2Isabelle
  imports Main
begin

section \<open>JavaScript values used by the tracker\<close>

text \<open>
  The numeric properties of a counters object. A property is either absent (reading it
  gives \<open>undefined\<close>), or holds \<open>NaN\<close>, or holds a number. Numbers are modelled as
  exact integers: the rounding of doubles beyond \<open>2^53\<close> and fractional values are not
  modelled.
\<close>

datatype jsnum = Undefined | NaN | Num int

datatype error = TypeError

text \<open>\<open>a - n\<close> and \<open>a + n\<close> for a property read \<open>a\<close> and a number \<open>n\<close>:
  \<open>undefined\<close> converts to \<open>NaN\<close>, and \<open>NaN\<close> is absorbing.\<close>

fun jsSub :: "jsnum \<Rightarrow> int \<Rightarrow> jsnum" where
  "jsSub (Num a) n = Num (a - n)"
| "jsSub NaN n = NaN"
| "jsSub Undefined n = NaN"

fun jsAdd :: "jsnum \<Rightarrow> int \<Rightarrow> jsnum" where
  "jsAdd (Num a) n = Num (a + n)"
| "jsAdd NaN n = NaN"
| "jsAdd Undefined n = NaN"

text \<open>\<open>Math.max(0, x)\<close>: \<open>NaN\<close> if an argument converts to \<open>NaN\<close>.\<close>

fun mathMax0 :: "jsnum \<Rightarrow> jsnum" where
  "mathMax0 (Num a) = Num (max 0 a)"
| "mathMax0 NaN = NaN"
| "mathMax0 Undefined = NaN"

text \<open>\<open>x || 0\<close> for a number \<open>x\<close>: \<open>NaN\<close> and \<open>0\<close> are falsy.\<close>

fun orZero :: "jsnum \<Rightarrow> int" where
  "orZero (Num a) = a"
| "orZero NaN = 0"
| "orZero Undefined = 0"

subsection \<open>parseInt\<close>

text \<open>
  \<open>parseInt(string)\<close> without a radix: leading white space is skipped, then an optional
  sign, then an optional \<open>0x\<close>/\<open>0X\<close> prefix (radix 16, otherwise 10), then the longest
  run of digits of the radix; no digit gives \<open>NaN\<close>. Only the ASCII white space
  characters are modelled.
\<close>

definition isWhiteSpace :: "char \<Rightarrow> bool" where
  "isWhiteSpace c = (c \<in> set [CHR '' '', CHR 0x09, CHR 0x0A, CHR 0x0B, CHR 0x0C, CHR 0x0D])"

definition digitOf :: "nat \<Rightarrow> char \<Rightarrow> nat option" where
  "digitOf radix c =
     (let n = (of_char c :: nat);
          d = (if 48 \<le> n \<and> n \<le> 57 then Some (n - 48)
               else if 97 \<le> n \<and> n \<le> 122 then Some (n - 87)
               else if 65 \<le> n \<and> n \<le> 90 then Some (n - 55)
               else None)
      in case d of
           None \<Rightarrow> None
         | Some v \<Rightarrow> if v < radix then Some v else None)"

fun takeDigits :: "nat \<Rightarrow> string \<Rightarrow> nat list" where
  "takeDigits radix [] = []"
| "takeDigits radix (c # cs) =
     (case digitOf radix c of
        None \<Rightarrow> []
      | Some v \<Rightarrow> v # takeDigits radix cs)"

definition digitsValue :: "nat \<Rightarrow> nat list \<Rightarrow> nat" where
  "digitsValue radix ds = foldl (\<lambda>acc d. acc * radix + d) 0 ds"

definition stripSign :: "string \<Rightarrow> int \<times> string" where
  "stripSign s =
     (case s of
        c # r \<Rightarrow> if c = CHR ''-'' then (- 1, r)
                 else if c = CHR ''+'' then (1, r)
                 else (1, s)
      | [] \<Rightarrow> (1, s))"

definition stripRadix :: "string \<Rightarrow> nat \<times> string" where
  "stripRadix s =
     (case s of
        c # x # r \<Rightarrow> if c = CHR ''0'' \<and> (x = CHR ''x'' \<or> x = CHR ''X'') then (16, r)
                     else (10, s)
      | _ \<Rightarrow> (10, s))"

definition parseIntStr :: "string \<Rightarrow> jsnum" where
  "parseIntStr s =
     (let (sign, s1) = stripSign (dropWhile isWhiteSpace s);
          (radix, s2) = stripRadix s1;
          ds = takeDigits radix s2
      in if ds = [] then NaN else Num (sign * int (digitsValue radix ds)))"

text \<open>The argument of \<open>parseInt\<close> may be \<open>undefined\<close> (a missing property); it is
  converted to the string \<open>undefined\<close>, which has no digit.\<close>

definition parseInt :: "string option \<Rightarrow> jsnum" where
  "parseInt v = (case v of None \<Rightarrow> NaN | Some s \<Rightarrow> parseIntStr s)"

text \<open>\<open>Math.max(0, parseInt(value) || 0)\<close>, the parse-and-clamp of every numeric input.\<close>

definition clampInput :: "string option \<Rightarrow> int" where
  "clampInput v = max 0 (orZero (parseInt v))"

subsection \<open>Printing a number in a template string\<close>

definition digitChar :: "nat \<Rightarrow> char" where
  "digitChar d = char_of (48 + d)"

fun showNat :: "nat \<Rightarrow> string" where
  "showNat n = (if n < 10 then [digitChar n] else showNat (n div 10) @ [digitChar (n mod 10)])"

declare showNat.simps [simp del]

definition showInt :: "int \<Rightarrow> string" where
  "showInt i = (if i < 0 then CHR ''-'' # showNat (nat (- i)) else showNat (nat i))"

fun showNum :: "jsnum \<Rightarrow> string" where
  "showNum (Num a) = showInt a"
| "showNum NaN = ''NaN''"
| "showNum Undefined = ''undefined''"

section \<open>Data model\<close>

text \<open>
  One counters object per prayer name. The prayers object maps property names to
  counters objects; a name that is not in the domain is a missing property, and
  \<open>data[p]\<close> is truthy exactly when \<open>p\<close> is in the domain (an object is truthy).
  Property values of other shapes (\<open>null\<close>, strings, nested objects) are not modelled.
\<close>

record counters =
  totalQada :: jsnum
  weeklyTarget :: jsnum
  completedThisWeek :: jsnum

type_synonym prayer_map = "string \<rightharpoonup> counters"

definition PRAYERS :: "string list" where
  "PRAYERS = [''Subuh'', ''Zohor'', ''Asar'', ''Maghrib'', ''Isyak'']"

definition OLD_TO_NEW :: "(string \<times> string) list" where
  "OLD_TO_NEW =
     [(''Fajr'', ''Subuh''), (''Dhuhr'', ''Zohor''), (''Asr'', ''Asar''),
      (''Maghrib'', ''Maghrib''), (''Isha'', ''Isyak'')]"

definition zeroCounters :: counters where
  "zeroCounters = \<lparr>totalQada = Num 0, weeklyTarget = Num 0, completedThisWeek = Num 0\<rparr>"

text \<open>\<open>{ ...obj }\<close>: spreading \<open>undefined\<close> gives the object without properties.\<close>

definition spread :: "counters option \<Rightarrow> counters" where
  "spread v =
     (case v of
        None \<Rightarrow> \<lparr>totalQada = Undefined, weeklyTarget = Undefined, completedThisWeek = Undefined\<rparr>
      | Some c \<Rightarrow> c)"

definition getDefaultPrayerData :: prayer_map where
  "getDefaultPrayerData = map_of (map (\<lambda>p. (p, zeroCounters)) PRAYERS)"

text \<open>The loop of \<open>migratePrayerNames\<close> over the entries of \<open>OLD_TO_NEW\<close>, filling
  the fresh object \<open>migrated\<close>.\<close>

definition renameKeys :: "prayer_map \<Rightarrow> prayer_map" where
  "renameKeys data =
     foldl (\<lambda>migrated (oldKey, newKey).
              migrated(newKey \<mapsto> (case data oldKey of Some c \<Rightarrow> c | None \<Rightarrow> zeroCounters)))
       Map.empty OLD_TO_NEW"

text \<open>\<open>migratePrayerNames\<close>; \<open>None\<close> is a falsy argument, returned as \<open>null\<close>.\<close>

definition migratePrayerNames :: "prayer_map option \<Rightarrow> prayer_map option" where
  "migratePrayerNames d =
     (case d of
        None \<Rightarrow> None
      | Some data \<Rightarrow>
          if list_all (\<lambda>p. data p \<noteq> None) PRAYERS then Some data
          else if \<not> list_ex (\<lambda>k. data k \<noteq> None) [''Fajr'', ''Dhuhr'', ''Asr'', ''Isha'']
          then Some data
          else Some (renameKeys data))"

section \<open>Calendar helper\<close>

text \<open>Times are milliseconds since the epoch; an ISO string of a valid date stands for
  exactly one such time. \<open>now\<close> is the value of \<open>new Date()\<close>.\<close>

definition getDaysLeftInWeek :: "int \<Rightarrow> int \<Rightarrow> int" where
  "getDaysLeftInWeek now weekStart =
     (let elapsed = (now - weekStart) div (1000 * 60 * 60 * 24)
      in max 0 (7 - elapsed))"

definition shouldAutoReset :: "int \<Rightarrow> int \<Rightarrow> bool" where
  "shouldAutoReset now weekStart = (getDaysLeftInWeek now weekStart = 0)"

section \<open>Application state\<close>

text \<open>
  The stored document \<open>{ prayers, weekStartDate }\<close> of the local cache, of a remote
  record and of a backup file; either property may be missing. A week start is a time
  (the ISO string of a valid date).
\<close>

record tracker_doc =
  doc_prayers :: "prayer_map option"
  doc_weekStartDate :: "int option"

text \<open>A remote record \<open>{ pin, tracker }\<close> (firebase.js).\<close>

record user_doc =
  pin :: "string option"
  tracker :: "tracker_doc option"

datatype sync_status = Loading | Synced | Offline

text \<open>What is handed to the email service: the date in the subject, the summary lines
  and the snapshot that is serialised as the full backup.\<close>

record mail =
  subject :: string
  summary :: string
  backupData :: prayer_map

text \<open>
  The component state (\<open>useState\<close> and \<open>useRef\<close> values), the local storage keys the
  component uses, the remote store, and the observable effects: the remote save
  attempts issued, the mails handed to the email service and the alerts shown.
\<close>

record app_state =
  currentUser :: "string option"
  loginUsername :: string
  loginPin :: string
  loginError :: string
  prayers :: prayer_map
  weekStartDate :: int
  todayInput :: "string \<rightharpoonup> string"
  syncStatus :: sync_status
  skipNextSync :: bool
  storedUser :: "string option"
  cache :: "tracker_doc option"
  emailSentKey :: "string option"
  remote :: "string \<rightharpoonup> user_doc"
  remoteSaves :: "(string \<times> tracker_doc) list"
  outbox :: "mail list"
  alerts :: "string list"

section \<open>Strings\<close>

text \<open>\<open>trim\<close>, for the ASCII white space characters.\<close>

definition trim :: "string \<Rightarrow> string" where
  "trim s = rev (dropWhile isWhiteSpace (rev (dropWhile isWhiteSpace s)))"

text \<open>\<open>toLowerCase\<close> on ASCII letters.\<close>

definition lowerChar :: "char \<Rightarrow> char" where
  "lowerChar c =
     (let n = (of_char c :: nat) in if 65 \<le> n \<and> n \<le> 90 then char_of (n + 32) else c)"

definition toLowerCase :: "string \<Rightarrow> string" where
  "toLowerCase s = map lowerChar s"

section \<open>Remote store (firebase.js)\<close>

datatype auth_result = AuthOk "tracker_doc option" | AuthFail string

definition loginUser :: "(string \<rightharpoonup> user_doc) \<Rightarrow> string \<Rightarrow> string \<Rightarrow> auth_result" where
  "loginUser store username p =
     (case store (toLowerCase username) of
        None \<Rightarrow> AuthFail ''User not found''
      | Some d \<Rightarrow> if pin d \<noteq> Some p then AuthFail ''Wrong PIN'' else AuthOk (tracker d))"

definition registerUser ::
  "(string \<rightharpoonup> user_doc) \<Rightarrow> string \<Rightarrow> string \<Rightarrow> auth_result \<times> (string \<rightharpoonup> user_doc)" where
  "registerUser store username p =
     (case store (toLowerCase username) of
        Some d \<Rightarrow> (AuthFail ''Username already taken'', store)
      | None \<Rightarrow> (AuthOk None, store(toLowerCase username \<mapsto> \<lparr>pin = Some p, tracker = None\<rparr>)))"

definition loadFromFirestore :: "(string \<rightharpoonup> user_doc) \<Rightarrow> string \<Rightarrow> tracker_doc option" where
  "loadFromFirestore store username =
     (case store (toLowerCase username) of
        Some d \<Rightarrow> tracker d
      | None \<Rightarrow> None)"

definition saveToFirestore ::
  "(string \<rightharpoonup> user_doc) \<Rightarrow> string \<Rightarrow> tracker_doc \<Rightarrow> (string \<rightharpoonup> user_doc)" where
  "saveToFirestore store username data =
     (let existing = (case store (toLowerCase username) of
                        Some d \<Rightarrow> d
                      | None \<Rightarrow> \<lparr>pin = None, tracker = None\<rparr>)
      in store(toLowerCase username \<mapsto> existing\<lparr>tracker := Some data\<rparr>))"

section \<open>Ledger mutations (part\_001)\<close>

definition handleSetTotal :: "string \<Rightarrow> string \<Rightarrow> app_state \<Rightarrow> app_state" where
  "handleSetTotal prayer v s =
     (let num = clampInput (Some v)
      in s\<lparr>prayers := (prayers s)(prayer \<mapsto> (spread (prayers s prayer))\<lparr>totalQada := Num num\<rparr>)\<rparr>)"

definition handleSetWeeklyTarget :: "string \<Rightarrow> string \<Rightarrow> app_state \<Rightarrow> app_state" where
  "handleSetWeeklyTarget prayer v s =
     (let num = clampInput (Some v)
      in s\<lparr>prayers := (prayers s)(prayer \<mapsto> (spread (prayers s prayer))\<lparr>weeklyTarget := Num num\<rparr>)\<rparr>)"

definition handleTodayInputChange :: "string \<Rightarrow> string \<Rightarrow> app_state \<Rightarrow> app_state" where
  "handleTodayInputChange prayer v s = s\<lparr>todayInput := (todayInput s)(prayer \<mapsto> v)\<rparr>"

text \<open>\<open>handleAddCompleted\<close>: reading \<open>prev[prayer].totalQada\<close> of a missing prayer
  throws inside the state updater.\<close>

definition handleAddCompleted :: "string \<Rightarrow> app_state \<Rightarrow> error + app_state" where
  "handleAddCompleted prayer s =
     (let num = clampInput (todayInput s prayer)
      in if num = 0 then Inr s
         else (case prayers s prayer of
                 None \<Rightarrow> Inl TypeError
               | Some c \<Rightarrow>
                   Inr (s\<lparr>prayers := (prayers s)(prayer \<mapsto>
                              c\<lparr>totalQada := mathMax0 (jsSub (totalQada c) num),
                                completedThisWeek := jsAdd (completedThisWeek c) num\<rparr>),
                          todayInput := (todayInput s)(prayer \<mapsto> [])\<rparr>)))"

section \<open>Cycle reset (part\_001)\<close>

text \<open>The updater of \<open>resetWeek\<close>: the loop over \<open>PRAYERS\<close> on a copy of \<open>prev\<close>.\<close>

definition zeroCompleted :: "string list \<Rightarrow> prayer_map \<Rightarrow> prayer_map" where
  "zeroCompleted names prev =
     foldl (\<lambda>updated p. updated(p \<mapsto> (spread (updated p))\<lparr>completedThisWeek := Num 0\<rparr>))
       prev names"

text \<open>In part\_001 the call \<open>sendBackupEmail(prev, false)\<close> in the updater is commented
  out.\<close>

definition resetWeek :: "int \<Rightarrow> app_state \<Rightarrow> app_state" where
  "resetWeek now s = s\<lparr>prayers := zeroCompleted PRAYERS (prayers s), weekStartDate := now\<rparr>"

text \<open>The auto-reset effect, run when \<open>weekStartDate\<close> has changed.\<close>

definition autoResetEffect :: "int \<Rightarrow> app_state \<Rightarrow> app_state" where
  "autoResetEffect now s = (if shouldAutoReset now (weekStartDate s) then resetWeek now s else s)"

section \<open>Loading and persisting (part\_001)\<close>

text \<open>The initialisers of the \<open>prayers\<close> and \<open>weekStartDate\<close> state, from the local
  cache (\<open>loadData\<close> gives \<open>null\<close> for a missing or unparsable cache entry).\<close>

definition initialPrayers :: "tracker_doc option \<Rightarrow> prayer_map" where
  "initialPrayers saved =
     (case saved of
        None \<Rightarrow> getDefaultPrayerData
      | Some d \<Rightarrow>
          (case doc_prayers d of
             None \<Rightarrow> getDefaultPrayerData
           | Some p \<Rightarrow>
               (case migratePrayerNames (Some p) of
                  Some m \<Rightarrow> m
                | None \<Rightarrow> getDefaultPrayerData)))"

definition initialWeekStartDate :: "int \<Rightarrow> tracker_doc option \<Rightarrow> int" where
  "initialWeekStartDate now saved =
     (case saved of
        None \<Rightarrow> now
      | Some d \<Rightarrow> (case doc_weekStartDate d of Some w \<Rightarrow> w | None \<Rightarrow> now))"

text \<open>What the remote load and the login do with a remote document that has a
  \<open>prayers\<close> property: migrate, set the suppression flag, replace the state and write
  the local cache.\<close>

definition adoptRemote :: "tracker_doc \<Rightarrow> app_state \<Rightarrow> app_state" where
  "adoptRemote data s =
     (case doc_prayers data of
        None \<Rightarrow> s
      | Some p \<Rightarrow>
          (let migrated = (case migratePrayerNames (Some p) of Some m \<Rightarrow> m | None \<Rightarrow> p)
           in s\<lparr>skipNextSync := True,
                prayers := migrated,
                weekStartDate := (case doc_weekStartDate data of
                                    Some w \<Rightarrow> w
                                  | None \<Rightarrow> weekStartDate s),
                cache := Some \<lparr>doc_prayers = Some migrated,
                                doc_weekStartDate = doc_weekStartDate data\<rparr>\<rparr>))"

text \<open>The load effect, run on mount and when \<open>currentUser\<close> changes; \<open>online\<close> says
  whether the remote call resolves or rejects.\<close>

definition loadEffect :: "bool \<Rightarrow> app_state \<Rightarrow> app_state" where
  "loadEffect online s =
     (case currentUser s of
        None \<Rightarrow> s
      | Some u \<Rightarrow>
          if \<not> online then s\<lparr>syncStatus := Offline\<rparr>
          else (case loadFromFirestore (remote s) u of
                  None \<Rightarrow> s\<lparr>syncStatus := Synced\<rparr>
                | Some data \<Rightarrow> (adoptRemote data s)\<lparr>syncStatus := Synced\<rparr>))"

text \<open>The persist effect, run when \<open>prayers\<close> or \<open>weekStartDate\<close> has changed.\<close>

definition persistEffect :: "bool \<Rightarrow> app_state \<Rightarrow> app_state" where
  "persistEffect online s =
     (let data = \<lparr>doc_prayers = Some (prayers s), doc_weekStartDate = Some (weekStartDate s)\<rparr>;
          s1 = s\<lparr>cache := Some data\<rparr>
      in if skipNextSync s1 then s1\<lparr>skipNextSync := False\<rparr>
         else (case currentUser s1 of
                 None \<Rightarrow> s1
               | Some u \<Rightarrow>
                   (let s2 = s1\<lparr>remoteSaves := remoteSaves s1 @ [(u, data)]\<rparr>
                    in if online
                       then s2\<lparr>remote := saveToFirestore (remote s2) u data, syncStatus := Synced\<rparr>
                       else s2\<lparr>syncStatus := Offline\<rparr>)))"

section \<open>Rendering (part\_001)\<close>

text \<open>
  What the body of the component reads from the ledger. Without a user it returns the
  login card and does not read the ledger. With a user it builds one card for each of
  \<open>PRAYERS\<close>, and \<open>getProgress\<close> reads \<open>data.weeklyTarget\<close> of \<open>prayers[prayer]\<close>,
  which throws for a missing prayer. (A user name is never the empty string.)
\<close>

fun renderCards :: "string list \<Rightarrow> prayer_map \<Rightarrow> error + unit" where
  "renderCards [] m = Inr ()"
| "renderCards (prayer # ps) m =
     (case m prayer of
        None \<Rightarrow> Inl TypeError
      | Some d \<Rightarrow> renderCards ps m)"

definition renderApp :: "app_state \<Rightarrow> error + unit" where
  "renderApp s =
     (case currentUser s of
        None \<Rightarrow> Inr ()
      | Some u \<Rightarrow> renderCards PRAYERS (prayers s))"

text \<open>After a state change the component renders, and the persist effect runs only
  when the render has not thrown.\<close>

definition renderAndPersist :: "bool \<Rightarrow> app_state \<Rightarrow> error + app_state" where
  "renderAndPersist online s =
     (case renderApp s of
        Inl e \<Rightarrow> Inl e
      | Inr u \<Rightarrow> Inr (persistEffect online s))"

section \<open>Login, registration and import (part\_001)\<close>

definition handleLogin :: "bool \<Rightarrow> app_state \<Rightarrow> app_state" where
  "handleLogin online s =
     (if trim (loginUsername s) = [] \<or> trim (loginPin s) = []
      then s\<lparr>loginError := ''Please enter username and PIN''\<rparr>
      else if \<not> online then s\<lparr>loginError := ''Connection failed. Try again.''\<rparr>
      else (case loginUser (remote s) (trim (loginUsername s)) (trim (loginPin s)) of
              AuthFail e \<Rightarrow> s\<lparr>loginError := e\<rparr>
            | AuthOk data \<Rightarrow>
                (let username = toLowerCase (trim (loginUsername s));
                     s1 = s\<lparr>loginError := [], storedUser := Some username,
                            currentUser := Some username\<rparr>;
                     s2 = (case data of None \<Rightarrow> s1 | Some d \<Rightarrow> adoptRemote d s1)
                 in s2\<lparr>syncStatus := Synced\<rparr>)))"

definition handleRegister :: "int \<Rightarrow> bool \<Rightarrow> app_state \<Rightarrow> app_state" where
  "handleRegister now online s =
     (if trim (loginUsername s) = [] \<or> trim (loginPin s) = []
      then s\<lparr>loginError := ''Please enter username and PIN''\<rparr>
      else if length (trim (loginPin s)) < 4
      then s\<lparr>loginError := ''PIN must be at least 4 characters''\<rparr>
      else if \<not> online then s\<lparr>loginError := ''Connection failed. Try again.''\<rparr>
      else (case registerUser (remote s) (trim (loginUsername s)) (trim (loginPin s)) of
              (AuthFail e, store) \<Rightarrow> s\<lparr>loginError := e\<rparr>
            | (AuthOk data, store) \<Rightarrow>
                (let username = toLowerCase (trim (loginUsername s))
                 in s\<lparr>loginError := [], remote := store, storedUser := Some username,
                      currentUser := Some username,
                      prayers := getDefaultPrayerData,
                      weekStartDate := now,
                      syncStatus := Synced\<rparr>)))"

text \<open>The backup file chosen for import: none, one that does not parse, or a parsed
  document.\<close>

datatype backup_file = NoFile | Unparsable | Parsed tracker_doc

definition handleImport :: "backup_file \<Rightarrow> app_state \<Rightarrow> app_state" where
  "handleImport f s =
     (case f of
        NoFile \<Rightarrow> s
      | Unparsable \<Rightarrow> s\<lparr>alerts := alerts s @ [''Invalid backup file.'']\<rparr>
      | Parsed imported \<Rightarrow>
          (let s1 = (case doc_prayers imported of Some p \<Rightarrow> s\<lparr>prayers := p\<rparr> | None \<Rightarrow> s)
           in case doc_weekStartDate imported of
                Some w \<Rightarrow> s1\<lparr>weekStartDate := w\<rparr>
              | None \<Rightarrow> s1))"

section \<open>Weekly backup email\<close>

text \<open>
  \<open>sendBackupEmail\<close> has the same text in part\_000 and part\_001; it refers to the
  \<open>PRAYERS\<close> constant of its file, which is the first argument here. \<open>today\<close> is
  \<open>new Date().toISOString().slice(0, 10)\<close>. Reading \<open>d.completedThisWeek\<close> of a
  missing prayer throws.
\<close>

definition PRAYERS_000 :: "string list" where
  "PRAYERS_000 = [''Fajr'', ''Dhuhr'', ''Asr'', ''Maghrib'', ''Isha'']"

definition summaryLine :: "string \<Rightarrow> counters \<Rightarrow> string" where
  "summaryLine p d =
     p @ '': '' @ showNum (completedThisWeek d) @ '' completed | ''
       @ showNum (totalQada d) @ '' remaining''"

fun summaryLines :: "string list \<Rightarrow> prayer_map \<Rightarrow> error + string list" where
  "summaryLines [] prayerData = Inr []"
| "summaryLines (p # ps) prayerData =
     (case prayerData p of
        None \<Rightarrow> Inl TypeError
      | Some d \<Rightarrow>
          (case summaryLines ps prayerData of
             Inl e \<Rightarrow> Inl e
           | Inr ls \<Rightarrow> Inr (summaryLine p d # ls)))"

fun joinLines :: "string list \<Rightarrow> string" where
  "joinLines [] = []"
| "joinLines [l] = l"
| "joinLines (l # ls) = l @ [CHR 0x0A] @ joinLines ls"

definition sendBackupEmailFor ::
  "string list \<Rightarrow> prayer_map \<Rightarrow> bool \<Rightarrow> string \<Rightarrow> app_state \<Rightarrow> error + app_state" where
  "sendBackupEmailFor names prayerData skipGuard today s =
     (if \<not> skipGuard \<and> emailSentKey s = Some today then Inr s
      else (case summaryLines names prayerData of
              Inl e \<Rightarrow> Inl e
            | Inr ls \<Rightarrow>
                Inr (s\<lparr>outbox := outbox s @
                          [\<lparr>subject = ''Solat Qada Weekly Backup - '' @ today,
                            summary = joinLines ls,
                            backupData = prayerData\<rparr>]\<rparr>)))"

definition sendBackupEmail :: "prayer_map \<Rightarrow> bool \<Rightarrow> string \<Rightarrow> app_state \<Rightarrow> error + app_state" where
  "sendBackupEmail = sendBackupEmailFor PRAYERS"

definition sendBackupEmail_000 :: "prayer_map \<Rightarrow> bool \<Rightarrow> string \<Rightarrow> app_state \<Rightarrow> error + app_state" where
  "sendBackupEmail_000 = sendBackupEmailFor PRAYERS_000"

text \<open>The two callbacks of the send: delivery succeeded (with the date computed when
  the mail was sent), or failed with an error text.\<close>

definition emailDelivered :: "string \<Rightarrow> app_state \<Rightarrow> app_state" where
  "emailDelivered currentDate s =
     s\<lparr>emailSentKey := Some currentDate,
       alerts := alerts s @ [''Backup email sent successfully!'']\<rparr>"

definition emailFailed :: "string \<Rightarrow> app_state \<Rightarrow> app_state" where
  "emailFailed err s = s\<lparr>alerts := alerts s @ [''Email failed: '' @ err]\<rparr>"

section \<open>Cycle reset of part\_000\<close>

text \<open>In part\_000 the updater of \<open>resetWeek\<close> calls \<open>sendBackupEmail(prev, false)\<close>
  before it copies and zeroes.\<close>

definition resetWeek_000 :: "int \<Rightarrow> string \<Rightarrow> app_state \<Rightarrow> error + app_state" where
  "resetWeek_000 now today s =
     (case sendBackupEmail_000 (prayers s) False today s of
        Inl e \<Rightarrow> Inl e
      | Inr s1 \<Rightarrow>
          Inr (s1\<lparr>prayers := zeroCompleted PRAYERS_000 (prayers s), weekStartDate := now\<rparr>))"

section \<open>Example ledgers and states\<close>

definition legacyLedger :: prayer_map where
  "legacyLedger = map_of
     [(''Fajr'', \<lparr>totalQada = Num 5, weeklyTarget = Num 2, completedThisWeek = Num 1\<rparr>),
      (''Dhuhr'', \<lparr>totalQada = Num 4, weeklyTarget = Num 3, completedThisWeek = Num 0\<rparr>),
      (''Asr'', \<lparr>totalQada = Num 0, weeklyTarget = Num 0, completedThisWeek = Num 0\<rparr>),
      (''Maghrib'', \<lparr>totalQada = Num 7, weeklyTarget = Num 7, completedThisWeek = Num 9\<rparr>),
      (''Isha'', \<lparr>totalQada = Num 1, weeklyTarget = Num 1, completedThisWeek = Num 1\<rparr>)]"

definition currentLedger :: prayer_map where
  "currentLedger = map_of
     [(''Subuh'', \<lparr>totalQada = Num 5, weeklyTarget = Num 2, completedThisWeek = Num 1\<rparr>),
      (''Zohor'', \<lparr>totalQada = Num 4, weeklyTarget = Num 3, completedThisWeek = Num 0\<rparr>),
      (''Asar'', \<lparr>totalQada = Num 0, weeklyTarget = Num 0, completedThisWeek = Num 0\<rparr>),
      (''Maghrib'', \<lparr>totalQada = Num 7, weeklyTarget = Num 7, completedThisWeek = Num 9\<rparr>),
      (''Isyak'', \<lparr>totalQada = Num 1, weeklyTarget = Num 1, completedThisWeek = Num 1\<rparr>)]"

definition maghribOnly :: prayer_map where
  "maghribOnly =
     [''Maghrib'' \<mapsto> \<lparr>totalQada = Num 5, weeklyTarget = Num 2, completedThisWeek = Num 1\<rparr>]"

text \<open>A legacy mapping that holds only two of the legacy names, and a mapping that holds
  only one current name.\<close>

definition partialLegacy :: prayer_map where
  "partialLegacy =
     [''Fajr'' \<mapsto> \<lparr>totalQada = Num 5, weeklyTarget = Num 2, completedThisWeek = Num 1\<rparr>,
      ''Maghrib'' \<mapsto> \<lparr>totalQada = Num 7, weeklyTarget = Num 7, completedThisWeek = Num 9\<rparr>]"

definition subuhOnly :: prayer_map where
  "subuhOnly =
     [''Subuh'' \<mapsto> \<lparr>totalQada = Num 3, weeklyTarget = Num 1, completedThisWeek = Num 2\<rparr>]"

text \<open>A logged-out state right after mount, with an empty cache, at time \<open>0\<close>.\<close>

definition freshState :: app_state where
  "freshState =
     \<lparr>currentUser = None, loginUsername = [], loginPin = [], loginError = [],
      prayers = initialPrayers None,
      weekStartDate = initialWeekStartDate 0 None,
      todayInput = map_of (map (\<lambda>p. (p, [])) PRAYERS),
      syncStatus = Loading, skipNextSync = False,
      storedUser = None, cache = None, emailSentKey = None,
      remote = Map.empty, remoteSaves = [], outbox = [], alerts = []\<rparr>"

text \<open>A state with a filled ledger whose cycle began at time \<open>0\<close>, and the same with
  the session of a user.\<close>

definition busyState :: app_state where
  "busyState = freshState\<lparr>prayers := currentLedger\<rparr>"

definition aliceState :: app_state where
  "aliceState =
     busyState\<lparr>currentUser := Some ''alice'', storedUser := Some ''alice'',
               remote := [''alice'' \<mapsto> \<lparr>pin = Some ''1234'', tracker = None\<rparr>],
               syncStatus := Synced\<rparr>"

text \<open>A state of part\_000: the ledger has the names of that file.\<close>

definition legacyState :: app_state where
  "legacyState = freshState\<lparr>prayers := legacyLedger\<rparr>"

text \<open>A backup file exported by part\_000.\<close>

definition legacyBackup :: tracker_doc where
  "legacyBackup = \<lparr>doc_prayers = Some legacyLedger, doc_weekStartDate = Some 0\<rparr>"

text \<open>The filled state after the user has typed \<open>3\<close> into the input of Subuh.\<close>

definition typedState :: app_state where
  "typedState = busyState\<lparr>todayInput := (todayInput busyState)(''Subuh'' \<mapsto> ''3'')\<rparr>"

text \<open>The filled state with a user name and a PIN typed into the login form.\<close>

definition registerState :: app_state where
  "registerState = busyState\<lparr>loginUsername := '' Alice '', loginPin := ''1234''\<rparr>"

text \<open>The session of a user whose remote record holds a ledger written by part\_000,
  with the login form filled in, and a backup file with a fresh ledger.\<close>

definition remoteState :: app_state where
  "remoteState =
     aliceState\<lparr>remote := [''alice'' \<mapsto> \<lparr>pin = Some ''1234'', tracker = Some legacyBackup\<rparr>],
                loginUsername := ''alice'', loginPin := ''1234''\<rparr>"

definition freshBackup :: tracker_doc where
  "freshBackup = \<lparr>doc_prayers = Some getDefaultPrayerData, doc_weekStartDate = Some 5000\<rparr>"

section \<open>Parsing and clamping\<close>

lemmas parse_defs = clampInput_def parseInt_def parseIntStr_def stripSign_def stripRadix_def
  isWhiteSpace_def digitOf_def digitsValue_def

lemma clampInput_nonneg: "0 \<le> clampInput v"
  by (simp add: clampInput_def)

lemma clampInput_NaN: "parseInt v = NaN \<Longrightarrow> clampInput v = 0"
  by (simp add: clampInput_def)

lemma clampInput_examples:
  "clampInput (Some ''12abc'') = 12"
  "clampInput (Some ''-4'') = 0"
  "clampInput (Some ''abc'') = 0"
  "clampInput (Some []) = 0"
  "clampInput None = 0"
  by (simp_all add: parse_defs)

section \<open>Recording completions\<close>

lemma typedState_input: "clampInput (todayInput typedState ''Subuh'') = 3"
  by (simp add: typedState_def parse_defs)

lemma typedState_subuh:
  "prayers typedState ''Subuh'' =
     Some \<lparr>totalQada = Num 5, weeklyTarget = Num 2, completedThisWeek = Num 1\<rparr>"
  by (simp add: typedState_def busyState_def currentLedger_def)

text \<open>
  C1: \<open>handleAddCompleted\<close> parses and clamps the pending input of the prayer. If the
  clamped count is \<open>0\<close> (in particular when the input has no leading number and
  \<open>parseInt\<close> gives \<open>NaN\<close>), the whole state is returned as it is: the ledger is
  unchanged and the pending input is not cleared. If the count \<open>n\<close> is positive, then
  for a prayer of the ledger with numeric counters \<open>totalQada\<close> becomes
  \<open>max 0 (totalQada - n)\<close>, \<open>completedThisWeek\<close> becomes \<open>completedThisWeek + n\<close>,
  \<open>weeklyTarget\<close> and all other prayers stay, and the pending input is cleared.
\<close>

theorem handleAddCompleted_spec:
  "(clampInput (todayInput s p) = 0 \<longrightarrow> handleAddCompleted p s = Inr s) \<and>
   (parseInt (todayInput s p) = NaN \<longrightarrow> handleAddCompleted p s = Inr s) \<and>
   (0 < clampInput (todayInput s p) \<longrightarrow> prayers s p = Some c \<longrightarrow>
      totalQada c = Num t \<longrightarrow> completedThisWeek c = Num w \<longrightarrow>
      handleAddCompleted p s =
        Inr (s\<lparr>prayers := (prayers s)(p \<mapsto>
                  c\<lparr>totalQada := Num (max 0 (t - clampInput (todayInput s p))),
                    completedThisWeek := Num (w + clampInput (todayInput s p))\<rparr>),
               todayInput := (todayInput s)(p \<mapsto> [])\<rparr>))"
  by (simp add: handleAddCompleted_def Let_def clampInput_NaN)

lemma handleAddCompleted_missing:
  "0 < clampInput (todayInput s p) \<Longrightarrow> prayers s p = None \<Longrightarrow>
     handleAddCompleted p s = Inl TypeError"
  by (simp add: handleAddCompleted_def Let_def)

theorem handleAddCompleted_witness:
  "handleAddCompleted ''Subuh'' typedState =
     Inr (typedState\<lparr>prayers := (prayers typedState)(''Subuh'' \<mapsto>
              \<lparr>totalQada = Num 2, weeklyTarget = Num 2, completedThisWeek = Num 4\<rparr>),
            todayInput := (todayInput typedState)(''Subuh'' \<mapsto> [])\<rparr>)"
  using handleAddCompleted_spec [of typedState "''Subuh''"
      "\<lparr>totalQada = Num 5, weeklyTarget = Num 2, completedThisWeek = Num 1\<rparr>" 5 1]
  by (simp add: typedState_input typedState_subuh)

section \<open>The cycle reset\<close>

lemma zeroCompleted_apply:
  "zeroCompleted PRAYERS m k =
     (if k \<in> set PRAYERS then Some ((spread (m k))\<lparr>completedThisWeek := Num 0\<rparr>) else m k)"
  by (simp add: zeroCompleted_def PRAYERS_def)

lemma zeroCompleted_idem:
  "zeroCompleted PRAYERS (zeroCompleted PRAYERS m) = zeroCompleted PRAYERS m"
  by (rule ext) (simp add: zeroCompleted_apply spread_def)

text \<open>
  C2: \<open>resetWeek\<close> replaces the counters \<open>c\<close> of each of the five prayers by \<open>c\<close> with
  \<open>completedThisWeek\<close> set to \<open>0\<close>, so \<open>totalQada\<close> and \<open>weeklyTarget\<close> are kept;
  afterwards \<open>completedThisWeek\<close> is \<open>0\<close> for all five names; it
  leaves every other property of the prayers object alone, sets \<open>weekStartDate\<close> to the
  time of the reset, and changes no other component of the state.
\<close>

theorem resetWeek_spec:
  "(\<forall>p\<in>set PRAYERS. \<forall>c. prayers s p = Some c \<longrightarrow>
        prayers (resetWeek now s) p = Some (c\<lparr>completedThisWeek := Num 0\<rparr>)) \<and>
   (\<forall>p\<in>set PRAYERS.
        map_option completedThisWeek (prayers (resetWeek now s) p) = Some (Num 0)) \<and>
   (\<forall>q. q \<notin> set PRAYERS \<longrightarrow> prayers (resetWeek now s) q = prayers s q) \<and>
   weekStartDate (resetWeek now s) = now \<and>
   resetWeek now s = s\<lparr>prayers := prayers (resetWeek now s), weekStartDate := now\<rparr>"
  by (simp add: resetWeek_def zeroCompleted_apply spread_def)

theorem resetWeek_witness:
  "prayers (resetWeek 1000 busyState) ''Subuh'' =
     Some \<lparr>totalQada = Num 5, weeklyTarget = Num 2, completedThisWeek = Num 0\<rparr> \<and>
   prayers (resetWeek 1000 busyState) ''Maghrib'' =
     Some \<lparr>totalQada = Num 7, weeklyTarget = Num 7, completedThisWeek = Num 0\<rparr> \<and>
   prayers (resetWeek 1000 busyState) ''Fajr'' = None \<and>
   weekStartDate (resetWeek 1000 busyState) = 1000"
  using resetWeek_spec [of busyState 1000]
  by (simp add: PRAYERS_def busyState_def currentLedger_def)

section \<open>The calendar helper\<close>

lemma elapsed_ge7: "7 \<le> (d::int) div 86400000 \<longleftrightarrow> 604800000 \<le> d"
  by linarith

lemma shouldAutoReset_iff: "shouldAutoReset now start \<longleftrightarrow> 604800000 \<le> now - start"
proof -
  have "shouldAutoReset now start \<longleftrightarrow> 7 \<le> (now - start) div 86400000"
    unfolding shouldAutoReset_def getDaysLeftInWeek_def Let_def by (simp add: max_def)
  then show ?thesis using elapsed_ge7 [of "now - start"] by simp
qed

text \<open>
  C4: with times in milliseconds, \<open>getDaysLeftInWeek\<close> is \<open>max 0 (7 - e)\<close> for the
  number \<open>e\<close> of whole days (floor division by \<open>86400000\<close>) between the week start and
  now, and \<open>shouldAutoReset\<close> holds exactly when that value is \<open>0\<close>, which is exactly
  when seven full days have elapsed. It is false after 6.99 days (\<open>603936000\<close> ms) and
  true after 7 days (\<open>604800000\<close> ms).
\<close>

theorem getDaysLeftInWeek_spec:
  "getDaysLeftInWeek now start = max 0 (7 - (now - start) div 86400000) \<and>
   (shouldAutoReset now start \<longleftrightarrow> getDaysLeftInWeek now start = 0) \<and>
   (shouldAutoReset now start \<longleftrightarrow> 7 * 86400000 \<le> now - start) \<and>
   \<not> shouldAutoReset (start + 603936000) start \<and>
   shouldAutoReset (start + 604800000) start"
proof -
  have days: "getDaysLeftInWeek now start = max 0 (7 - (now - start) div 86400000)"
    by (simp add: getDaysLeftInWeek_def)
  have expired: "shouldAutoReset now start \<longleftrightarrow> getDaysLeftInWeek now start = 0"
    by (simp add: shouldAutoReset_def)
  have week: "shouldAutoReset now start \<longleftrightarrow> 7 * 86400000 \<le> now - start"
    by (simp add: shouldAutoReset_iff)
  have before: "\<not> shouldAutoReset (start + 603936000) start"
    by (simp add: shouldAutoReset_iff)
  have after: "shouldAutoReset (start + 604800000) start"
    by (simp add: shouldAutoReset_iff)
  show ?thesis
    by (intro conjI days expired week before after)
qed

text \<open>
  C5: right after \<open>resetWeek\<close> has set the week start to \<open>now\<close>, the expiry check at
  the same instant is false, so the auto-reset effect does not fire again and leaves
  the state of the first reset as it is; and a second \<open>resetWeek\<close> at that instant
  would give the same state anyway.
\<close>

theorem resetWeek_idempotent:
  "\<not> shouldAutoReset now (weekStartDate (resetWeek now s)) \<and>
   autoResetEffect now (resetWeek now s) = resetWeek now s \<and>
   resetWeek now (resetWeek now s) = resetWeek now s"
  by (simp add: shouldAutoReset_iff autoResetEffect_def) (simp add: resetWeek_def zeroCompleted_idem)

section \<open>Key migration\<close>

lemma hasAllNewKeys_iff:
  "list_all (\<lambda>p. data p \<noteq> None) PRAYERS \<longleftrightarrow> set PRAYERS \<subseteq> dom data"
  by (auto simp: list_all_iff)

lemma hasOldKeys_iff:
  "list_ex (\<lambda>k. data k \<noteq> None) [''Fajr'', ''Dhuhr'', ''Asr'', ''Isha'']
     \<longleftrightarrow> dom data \<inter> {''Fajr'', ''Dhuhr'', ''Asr'', ''Isha''} \<noteq> {}"
  by auto

lemma renameKeys_dom: "dom (renameKeys data) = set PRAYERS"
  by (simp add: renameKeys_def OLD_TO_NEW_def PRAYERS_def insert_commute)

lemma renameKeys_apply:
  "(old, new) \<in> set OLD_TO_NEW \<Longrightarrow>
     renameKeys data new = Some (case data old of Some c \<Rightarrow> c | None \<Rightarrow> zeroCounters)"
  by (auto simp: renameKeys_def OLD_TO_NEW_def)

lemma migrate_full:
  "set PRAYERS \<subseteq> dom data \<Longrightarrow> migratePrayerNames (Some data) = Some data"
  unfolding migratePrayerNames_def hasAllNewKeys_iff by simp

lemma migrate_plain:
  "\<not> set PRAYERS \<subseteq> dom data \<Longrightarrow> dom data \<inter> {''Fajr'', ''Dhuhr'', ''Asr'', ''Isha''} = {} \<Longrightarrow>
     migratePrayerNames (Some data) = Some data"
  unfolding migratePrayerNames_def hasAllNewKeys_iff hasOldKeys_iff by simp

lemma migrate_legacy:
  "\<not> set PRAYERS \<subseteq> dom data \<Longrightarrow> dom data \<inter> {''Fajr'', ''Dhuhr'', ''Asr'', ''Isha''} \<noteq> {} \<Longrightarrow>
     migratePrayerNames (Some data) = Some (renameKeys data)"
  unfolding migratePrayerNames_def hasAllNewKeys_iff hasOldKeys_iff by simp

lemma legacyLedger_dom: "dom legacyLedger = {''Fajr'', ''Dhuhr'', ''Asr'', ''Maghrib'', ''Isha''}"
  by (simp add: legacyLedger_def insert_commute)

lemma legacyLedger_not_current: "\<not> set PRAYERS \<subseteq> dom legacyLedger"
  by (simp add: legacyLedger_dom PRAYERS_def)

lemma legacyLedger_has_old:
  "dom legacyLedger \<inter> {''Fajr'', ''Dhuhr'', ''Asr'', ''Isha''} \<noteq> {}"
  by (simp add: legacyLedger_dom)

lemma PRAYERS_set: "set PRAYERS = {''Subuh'', ''Zohor'', ''Asar'', ''Maghrib'', ''Isyak''}"
  by (simp add: PRAYERS_def)

lemma renameKeys_literal:
  "renameKeys data =
     [''Subuh'' \<mapsto> (case data ''Fajr'' of Some c \<Rightarrow> c
                | None \<Rightarrow> \<lparr>totalQada = Num 0, weeklyTarget = Num 0, completedThisWeek = Num 0\<rparr>),
              ''Zohor'' \<mapsto> (case data ''Dhuhr'' of Some c \<Rightarrow> c
                | None \<Rightarrow> \<lparr>totalQada = Num 0, weeklyTarget = Num 0, completedThisWeek = Num 0\<rparr>),
              ''Asar'' \<mapsto> (case data ''Asr'' of Some c \<Rightarrow> c
                | None \<Rightarrow> \<lparr>totalQada = Num 0, weeklyTarget = Num 0, completedThisWeek = Num 0\<rparr>),
              ''Maghrib'' \<mapsto> (case data ''Maghrib'' of Some c \<Rightarrow> c
                | None \<Rightarrow> \<lparr>totalQada = Num 0, weeklyTarget = Num 0, completedThisWeek = Num 0\<rparr>),
              ''Isyak'' \<mapsto> (case data ''Isha'' of Some c \<Rightarrow> c
                | None \<Rightarrow> \<lparr>totalQada = Num 0, weeklyTarget = Num 0, completedThisWeek = Num 0\<rparr>)]"
  unfolding renameKeys_def OLD_TO_NEW_def zeroCounters_def by simp

text \<open>
  C3, as the code has it: a falsy argument is returned as \<open>null\<close>. A mapping that has
  all five current names (\<open>Subuh\<close>, \<open>Zohor\<close>, \<open>Asar\<close>, \<open>Maghrib\<close>, \<open>Isyak\<close>) passes
  through unchanged, whatever else it holds. A mapping that misses a current name and
  has none of \<open>Fajr\<close>, \<open>Dhuhr\<close>, \<open>Asr\<close>, \<open>Isha\<close> passes through unchanged as well:
  \<open>Maghrib\<close>, the name shared by both generations, does not count as a legacy key. A
  mapping that misses a current name and has one of those four names is replaced by
  the mapping with exactly the five current names in which \<open>Subuh\<close> holds the counters
  of \<open>Fajr\<close>, \<open>Zohor\<close> those of \<open>Dhuhr\<close>, \<open>Asar\<close> those of \<open>Asr\<close>, \<open>Maghrib\<close> those
  of \<open>Maghrib\<close> and \<open>Isyak\<close> those of \<open>Isha\<close>, each exactly as it was, and a name
  whose counterpart is missing holds \<open>totalQada = 0\<close>, \<open>weeklyTarget = 0\<close>,
  \<open>completedThisWeek = 0\<close>.
\<close>

theorem migratePrayerNames_spec:
  "migratePrayerNames None = None \<and>
   ({''Subuh'', ''Zohor'', ''Asar'', ''Maghrib'', ''Isyak''} \<subseteq> dom data \<longrightarrow>
      migratePrayerNames (Some data) = Some data) \<and>
   (\<not> {''Subuh'', ''Zohor'', ''Asar'', ''Maghrib'', ''Isyak''} \<subseteq> dom data \<longrightarrow>
      dom data \<inter> {''Fajr'', ''Dhuhr'', ''Asr'', ''Isha''} = {} \<longrightarrow>
      migratePrayerNames (Some data) = Some data) \<and>
   (\<not> {''Subuh'', ''Zohor'', ''Asar'', ''Maghrib'', ''Isyak''} \<subseteq> dom data \<longrightarrow>
      dom data \<inter> {''Fajr'', ''Dhuhr'', ''Asr'', ''Isha''} \<noteq> {} \<longrightarrow>
      migratePrayerNames (Some data) =
        Some
         [''Subuh'' \<mapsto> (case data ''Fajr'' of Some c \<Rightarrow> c
                | None \<Rightarrow> \<lparr>totalQada = Num 0, weeklyTarget = Num 0, completedThisWeek = Num 0\<rparr>),
              ''Zohor'' \<mapsto> (case data ''Dhuhr'' of Some c \<Rightarrow> c
                | None \<Rightarrow> \<lparr>totalQada = Num 0, weeklyTarget = Num 0, completedThisWeek = Num 0\<rparr>),
              ''Asar'' \<mapsto> (case data ''Asr'' of Some c \<Rightarrow> c
                | None \<Rightarrow> \<lparr>totalQada = Num 0, weeklyTarget = Num 0, completedThisWeek = Num 0\<rparr>),
              ''Maghrib'' \<mapsto> (case data ''Maghrib'' of Some c \<Rightarrow> c
                | None \<Rightarrow> \<lparr>totalQada = Num 0, weeklyTarget = Num 0, completedThisWeek = Num 0\<rparr>),
              ''Isyak'' \<mapsto> (case data ''Isha'' of Some c \<Rightarrow> c
                | None \<Rightarrow> \<lparr>totalQada = Num 0, weeklyTarget = Num 0, completedThisWeek = Num 0\<rparr>)] \<and>
      dom (the (migratePrayerNames (Some data))) = {''Subuh'', ''Zohor'', ''Asar'', ''Maghrib'', ''Isyak''})"
proof -
  have null: "migratePrayerNames None = None"
    by (simp add: migratePrayerNames_def)
  have full: "{''Subuh'', ''Zohor'', ''Asar'', ''Maghrib'', ''Isyak''} \<subseteq> dom data \<longrightarrow>
      migratePrayerNames (Some data) = Some data"
    using migrate_full [of data] unfolding PRAYERS_set by blast
  have plain: "\<not> {''Subuh'', ''Zohor'', ''Asar'', ''Maghrib'', ''Isyak''} \<subseteq> dom data \<longrightarrow>
      dom data \<inter> {''Fajr'', ''Dhuhr'', ''Asr'', ''Isha''} = {} \<longrightarrow>
      migratePrayerNames (Some data) = Some data"
    using migrate_plain [of data] unfolding PRAYERS_set by blast
  have keys: "dom (renameKeys data) = {''Subuh'', ''Zohor'', ''Asar'', ''Maghrib'', ''Isyak''}"
    using renameKeys_dom [of data] unfolding PRAYERS_set .
  have renamed: "\<not> {''Subuh'', ''Zohor'', ''Asar'', ''Maghrib'', ''Isyak''} \<subseteq> dom data \<longrightarrow>
      dom data \<inter> {''Fajr'', ''Dhuhr'', ''Asr'', ''Isha''} \<noteq> {} \<longrightarrow>
      migratePrayerNames (Some data) = Some (renameKeys data) \<and>
      dom (the (migratePrayerNames (Some data))) = {''Subuh'', ''Zohor'', ''Asar'', ''Maghrib'', ''Isyak''}"
    using migrate_legacy [of data] keys unfolding PRAYERS_set by simp
  show ?thesis
    using renamed unfolding renameKeys_literal [of data]
    by (intro conjI null full plain)
qed

lemma partialLegacy_dom: "dom partialLegacy = {''Fajr'', ''Maghrib''}"
  by (simp add: partialLegacy_def insert_commute)

lemma subuhOnly_keys:
  "\<not> {''Subuh'', ''Zohor'', ''Asar'', ''Maghrib'', ''Isyak''} \<subseteq> dom subuhOnly"
  "dom subuhOnly \<inter> {''Fajr'', ''Dhuhr'', ''Asr'', ''Isha''} = {}"
  by (simp_all add: subuhOnly_def)

lemma currentLedger_keys:
  "{''Subuh'', ''Zohor'', ''Asar'', ''Maghrib'', ''Isyak''} \<subseteq> dom currentLedger"
  by (simp add: currentLedger_def)

theorem migratePrayerNames_witness:
  "migratePrayerNames (Some legacyLedger) =
     Some [''Subuh'' \<mapsto> \<lparr>totalQada = Num 5, weeklyTarget = Num 2, completedThisWeek = Num 1\<rparr>,
           ''Zohor'' \<mapsto> \<lparr>totalQada = Num 4, weeklyTarget = Num 3, completedThisWeek = Num 0\<rparr>,
           ''Asar'' \<mapsto> \<lparr>totalQada = Num 0, weeklyTarget = Num 0, completedThisWeek = Num 0\<rparr>,
           ''Maghrib'' \<mapsto> \<lparr>totalQada = Num 7, weeklyTarget = Num 7, completedThisWeek = Num 9\<rparr>,
           ''Isyak'' \<mapsto> \<lparr>totalQada = Num 1, weeklyTarget = Num 1, completedThisWeek = Num 1\<rparr>] \<and>
   migratePrayerNames (Some partialLegacy) =
     Some [''Subuh'' \<mapsto> \<lparr>totalQada = Num 5, weeklyTarget = Num 2, completedThisWeek = Num 1\<rparr>,
           ''Zohor'' \<mapsto> \<lparr>totalQada = Num 0, weeklyTarget = Num 0, completedThisWeek = Num 0\<rparr>,
           ''Asar'' \<mapsto> \<lparr>totalQada = Num 0, weeklyTarget = Num 0, completedThisWeek = Num 0\<rparr>,
           ''Maghrib'' \<mapsto> \<lparr>totalQada = Num 7, weeklyTarget = Num 7, completedThisWeek = Num 9\<rparr>,
           ''Isyak'' \<mapsto> \<lparr>totalQada = Num 0, weeklyTarget = Num 0, completedThisWeek = Num 0\<rparr>] \<and>
   migratePrayerNames (Some currentLedger) = Some currentLedger \<and>
   migratePrayerNames (Some subuhOnly) = Some subuhOnly"
proof -
  have legacy_values:
    "legacyLedger ''Fajr'' = Some \<lparr>totalQada = Num 5, weeklyTarget = Num 2, completedThisWeek = Num 1\<rparr>"
    "legacyLedger ''Dhuhr'' = Some \<lparr>totalQada = Num 4, weeklyTarget = Num 3, completedThisWeek = Num 0\<rparr>"
    "legacyLedger ''Asr'' = Some \<lparr>totalQada = Num 0, weeklyTarget = Num 0, completedThisWeek = Num 0\<rparr>"
    "legacyLedger ''Maghrib'' = Some \<lparr>totalQada = Num 7, weeklyTarget = Num 7, completedThisWeek = Num 9\<rparr>"
    "legacyLedger ''Isha'' = Some \<lparr>totalQada = Num 1, weeklyTarget = Num 1, completedThisWeek = Num 1\<rparr>"
    by (simp_all add: legacyLedger_def)
  have partial_values:
    "partialLegacy ''Fajr'' = Some \<lparr>totalQada = Num 5, weeklyTarget = Num 2, completedThisWeek = Num 1\<rparr>"
    "partialLegacy ''Dhuhr'' = None"
    "partialLegacy ''Asr'' = None"
    "partialLegacy ''Maghrib'' = Some \<lparr>totalQada = Num 7, weeklyTarget = Num 7, completedThisWeek = Num 9\<rparr>"
    "partialLegacy ''Isha'' = None"
    by (simp_all add: partialLegacy_def)
  have full_legacy: "migratePrayerNames (Some legacyLedger) =
     Some [''Subuh'' \<mapsto> \<lparr>totalQada = Num 5, weeklyTarget = Num 2, completedThisWeek = Num 1\<rparr>,
           ''Zohor'' \<mapsto> \<lparr>totalQada = Num 4, weeklyTarget = Num 3, completedThisWeek = Num 0\<rparr>,
           ''Asar'' \<mapsto> \<lparr>totalQada = Num 0, weeklyTarget = Num 0, completedThisWeek = Num 0\<rparr>,
           ''Maghrib'' \<mapsto> \<lparr>totalQada = Num 7, weeklyTarget = Num 7, completedThisWeek = Num 9\<rparr>,
           ''Isyak'' \<mapsto> \<lparr>totalQada = Num 1, weeklyTarget = Num 1, completedThisWeek = Num 1\<rparr>]"
    using migratePrayerNames_spec [of legacyLedger]
    by (simp add: legacy_values legacyLedger_dom)
  have part_legacy: "migratePrayerNames (Some partialLegacy) =
     Some [''Subuh'' \<mapsto> \<lparr>totalQada = Num 5, weeklyTarget = Num 2, completedThisWeek = Num 1\<rparr>,
           ''Zohor'' \<mapsto> \<lparr>totalQada = Num 0, weeklyTarget = Num 0, completedThisWeek = Num 0\<rparr>,
           ''Asar'' \<mapsto> \<lparr>totalQada = Num 0, weeklyTarget = Num 0, completedThisWeek = Num 0\<rparr>,
           ''Maghrib'' \<mapsto> \<lparr>totalQada = Num 7, weeklyTarget = Num 7, completedThisWeek = Num 9\<rparr>,
           ''Isyak'' \<mapsto> \<lparr>totalQada = Num 0, weeklyTarget = Num 0, completedThisWeek = Num 0\<rparr>]"
    using migratePrayerNames_spec [of partialLegacy]
    by (simp add: partial_values partialLegacy_dom)
  have current: "migratePrayerNames (Some currentLedger) = Some currentLedger"
    using migratePrayerNames_spec [of currentLedger] currentLedger_keys by blast
  have plain: "migratePrayerNames (Some subuhOnly) = Some subuhOnly"
    using migratePrayerNames_spec [of subuhOnly] subuhOnly_keys by blast
  show ?thesis
    by (intro conjI full_legacy part_legacy current plain)
qed

text \<open>
  The claim C3 as stated fails: the mapping that holds only \<open>Maghrib\<close> misses current
  names and holds a name of the legacy generation, and it is returned unchanged, so
  \<open>Subuh\<close> is missing from the result instead of holding \<open>{0,0,0}\<close>.
\<close>

theorem migratePrayerNames_counterexample:
  "\<not> set PRAYERS \<subseteq> dom maghribOnly \<and>
   ''Maghrib'' \<in> dom maghribOnly \<and> ''Maghrib'' \<in> fst ` set OLD_TO_NEW \<and>
   migratePrayerNames (Some maghribOnly) = Some maghribOnly \<and>
   maghribOnly ''Subuh'' = None \<and>
   maghribOnly ''Subuh'' \<noteq> Some zeroCounters"
  by (simp add: migratePrayerNames_def maghribOnly_def PRAYERS_def OLD_TO_NEW_def)

section \<open>Registration\<close>

lemma getDefaultPrayerData_dom: "dom getDefaultPrayerData = set PRAYERS"
  by (simp add: getDefaultPrayerData_def dom_map_of_conv_image_fst image_comp comp_def)

lemma getDefaultPrayerData_apply:
  "getDefaultPrayerData p = (if p \<in> set PRAYERS then Some zeroCounters else None)"
  by (simp add: getDefaultPrayerData_def PRAYERS_def)

lemma getDefaultPrayerData_literal:
  "getDefaultPrayerData =
     [''Subuh'' \<mapsto> \<lparr>totalQada = Num 0, weeklyTarget = Num 0, completedThisWeek = Num 0\<rparr>,
           ''Zohor'' \<mapsto> \<lparr>totalQada = Num 0, weeklyTarget = Num 0, completedThisWeek = Num 0\<rparr>,
           ''Asar'' \<mapsto> \<lparr>totalQada = Num 0, weeklyTarget = Num 0, completedThisWeek = Num 0\<rparr>,
           ''Maghrib'' \<mapsto> \<lparr>totalQada = Num 0, weeklyTarget = Num 0, completedThisWeek = Num 0\<rparr>,
           ''Isyak'' \<mapsto> \<lparr>totalQada = Num 0, weeklyTarget = Num 0, completedThisWeek = Num 0\<rparr>]"
  by (rule ext) (simp add: getDefaultPrayerData_def PRAYERS_def zeroCounters_def)

text \<open>
  C10: a registration that succeeds (a user name and a PIN of at least four characters
  after trimming, the remote call resolves, and the name is not taken) replaces the
  ledger by the default data, in which each of the five current names \<open>Subuh\<close>,
  \<open>Zohor\<close>, \<open>Asar\<close>, \<open>Maghrib\<close>, \<open>Isyak\<close> holds \<open>totalQada = 0\<close>,
  \<open>weeklyTarget = 0\<close>, \<open>completedThisWeek = 0\<close> and no other name is present, and
  sets the week start to the time of the registration, whatever the ledger held
  before.
\<close>

theorem handleRegister_spec:
  assumes "trim (loginUsername s) \<noteq> []"
    and "4 \<le> length (trim (loginPin s))"
    and "remote s (toLowerCase (trim (loginUsername s))) = None"
  shows "prayers (handleRegister now True s) =
          [''Subuh'' \<mapsto> \<lparr>totalQada = Num 0, weeklyTarget = Num 0, completedThisWeek = Num 0\<rparr>,
           ''Zohor'' \<mapsto> \<lparr>totalQada = Num 0, weeklyTarget = Num 0, completedThisWeek = Num 0\<rparr>,
           ''Asar'' \<mapsto> \<lparr>totalQada = Num 0, weeklyTarget = Num 0, completedThisWeek = Num 0\<rparr>,
           ''Maghrib'' \<mapsto> \<lparr>totalQada = Num 0, weeklyTarget = Num 0, completedThisWeek = Num 0\<rparr>,
           ''Isyak'' \<mapsto> \<lparr>totalQada = Num 0, weeklyTarget = Num 0, completedThisWeek = Num 0\<rparr>] \<and>
         dom (prayers (handleRegister now True s)) = {''Subuh'', ''Zohor'', ''Asar'', ''Maghrib'', ''Isyak''} \<and>
         prayers (handleRegister now True s) = getDefaultPrayerData \<and>
         weekStartDate (handleRegister now True s) = now \<and>
         currentUser (handleRegister now True s) = Some (toLowerCase (trim (loginUsername s))) \<and>
         dom getDefaultPrayerData = set PRAYERS \<and>
         (\<forall>p \<in> set PRAYERS. getDefaultPrayerData p = Some zeroCounters)"
proof -
  from assms(2) have pin: "trim (loginPin s) \<noteq> []" "\<not> length (trim (loginPin s)) < 4"
    by auto
  have state: "prayers (handleRegister now True s) = getDefaultPrayerData"
    "weekStartDate (handleRegister now True s) = now"
    "currentUser (handleRegister now True s) = Some (toLowerCase (trim (loginUsername s)))"
    using assms(1,3) pin by (simp_all add: handleRegister_def registerUser_def Let_def)
  have keys: "dom getDefaultPrayerData = {''Subuh'', ''Zohor'', ''Asar'', ''Maghrib'', ''Isyak''}"
    using getDefaultPrayerData_dom by (simp add: PRAYERS_set)
  have defaults: "\<forall>p \<in> set PRAYERS. getDefaultPrayerData p = Some zeroCounters"
    by (simp add: getDefaultPrayerData_apply)
  have same: "getDefaultPrayerData = getDefaultPrayerData"
    by (rule refl)
  show ?thesis
    unfolding state
    by (intro conjI getDefaultPrayerData_literal keys same refl getDefaultPrayerData_dom defaults)
qed

lemma registerState_inputs:
  "trim (loginUsername registerState) = ''Alice''"
  "trim (loginPin registerState) = ''1234''"
  "remote registerState ''alice'' = None"
  by (simp_all add: registerState_def busyState_def freshState_def trim_def isWhiteSpace_def)

lemma toLowerCase_Alice: "toLowerCase ''Alice'' = ''alice''"
  by code_simp

theorem handleRegister_witness:
  "prayers registerState ''Subuh'' = Some \<lparr>totalQada = Num 5, weeklyTarget = Num 2, completedThisWeek = Num 1\<rparr> \<and>
   prayers (handleRegister 1000 True registerState) =
     [''Subuh'' \<mapsto> \<lparr>totalQada = Num 0, weeklyTarget = Num 0, completedThisWeek = Num 0\<rparr>,
           ''Zohor'' \<mapsto> \<lparr>totalQada = Num 0, weeklyTarget = Num 0, completedThisWeek = Num 0\<rparr>,
           ''Asar'' \<mapsto> \<lparr>totalQada = Num 0, weeklyTarget = Num 0, completedThisWeek = Num 0\<rparr>,
           ''Maghrib'' \<mapsto> \<lparr>totalQada = Num 0, weeklyTarget = Num 0, completedThisWeek = Num 0\<rparr>,
           ''Isyak'' \<mapsto> \<lparr>totalQada = Num 0, weeklyTarget = Num 0, completedThisWeek = Num 0\<rparr>] \<and>
   prayers (handleRegister 1000 True registerState) ''Subuh'' = Some \<lparr>totalQada = Num 0, weeklyTarget = Num 0, completedThisWeek = Num 0\<rparr> \<and>
   prayers (handleRegister 1000 True registerState) ''Fajr'' = None \<and>
   weekStartDate (handleRegister 1000 True registerState) = 1000 \<and>
   currentUser (handleRegister 1000 True registerState) = Some ''alice''"
proof -
  have before: "prayers registerState ''Subuh'' = Some \<lparr>totalQada = Num 5, weeklyTarget = Num 2, completedThisWeek = Num 1\<rparr>"
    by (simp add: registerState_def busyState_def currentLedger_def)
  from handleRegister_spec [of registerState 1000]
  have after: "prayers (handleRegister 1000 True registerState) =
     [''Subuh'' \<mapsto> \<lparr>totalQada = Num 0, weeklyTarget = Num 0, completedThisWeek = Num 0\<rparr>,
           ''Zohor'' \<mapsto> \<lparr>totalQada = Num 0, weeklyTarget = Num 0, completedThisWeek = Num 0\<rparr>,
           ''Asar'' \<mapsto> \<lparr>totalQada = Num 0, weeklyTarget = Num 0, completedThisWeek = Num 0\<rparr>,
           ''Maghrib'' \<mapsto> \<lparr>totalQada = Num 0, weeklyTarget = Num 0, completedThisWeek = Num 0\<rparr>,
           ''Isyak'' \<mapsto> \<lparr>totalQada = Num 0, weeklyTarget = Num 0, completedThisWeek = Num 0\<rparr>]"
    and start: "weekStartDate (handleRegister 1000 True registerState) = 1000"
    and user: "currentUser (handleRegister 1000 True registerState) = Some ''alice''"
    by (simp_all add: registerState_inputs toLowerCase_Alice)
  have subuh: "prayers (handleRegister 1000 True registerState) ''Subuh'' = Some \<lparr>totalQada = Num 0, weeklyTarget = Num 0, completedThisWeek = Num 0\<rparr>"
    and fajr: "prayers (handleRegister 1000 True registerState) ''Fajr'' = None"
    unfolding after by simp_all
  show ?thesis
    by (intro conjI before after subuh fajr start user)
qed

section \<open>The key set of the ledger\<close>

lemma handleSetTotal_keys:
  "p \<in> set PRAYERS \<Longrightarrow> dom (prayers s) = set PRAYERS \<Longrightarrow>
     dom (prayers (handleSetTotal p v s)) = set PRAYERS"
  by (simp add: handleSetTotal_def Let_def insert_absorb)

lemma handleSetWeeklyTarget_keys:
  "p \<in> set PRAYERS \<Longrightarrow> dom (prayers s) = set PRAYERS \<Longrightarrow>
     dom (prayers (handleSetWeeklyTarget p v s)) = set PRAYERS"
  by (simp add: handleSetWeeklyTarget_def Let_def insert_absorb)

lemma handleAddCompleted_keys:
  assumes "p \<in> set PRAYERS" and "dom (prayers s) = set PRAYERS"
  shows "\<exists>s'. handleAddCompleted p s = Inr s' \<and> dom (prayers s') = set PRAYERS"
proof -
  from assms obtain c where "prayers s p = Some c"
    by blast
  with assms show ?thesis
    by (simp add: handleAddCompleted_def Let_def insert_absorb)
qed

lemma zeroCompleted_dom: "dom (zeroCompleted PRAYERS m) = dom m \<union> set PRAYERS"
proof (rule set_eqI)
  fix k
  show "k \<in> dom (zeroCompleted PRAYERS m) \<longleftrightarrow> k \<in> dom m \<union> set PRAYERS"
    by (simp add: zeroCompleted_apply domIff)
qed

lemma resetWeek_keys: "dom (prayers (resetWeek now s)) = dom (prayers s) \<union> set PRAYERS"
  by (simp add: resetWeek_def zeroCompleted_dom)

lemma legacy_names_differ:
  "\<not> set PRAYERS \<subseteq> set PRAYERS_000"
  "set PRAYERS_000 \<inter> {''Fajr'', ''Dhuhr'', ''Asr'', ''Isha''} \<noteq> {}"
proof -
  have "''Subuh'' \<in> set PRAYERS" and "''Subuh'' \<notin> set PRAYERS_000"
    by (simp_all add: PRAYERS_def PRAYERS_000_def)
  then show "\<not> set PRAYERS \<subseteq> set PRAYERS_000"
    by blast
  have "''Fajr'' \<in> set PRAYERS_000"
    by (simp add: PRAYERS_000_def)
  then show "set PRAYERS_000 \<inter> {''Fajr'', ''Dhuhr'', ''Asr'', ''Isha''} \<noteq> {}"
    by blast
qed

lemma initialPrayers_keys:
  assumes "dom p = set PRAYERS \<or> dom p = set PRAYERS_000"
  shows "dom (initialPrayers (Some \<lparr>doc_prayers = Some p, doc_weekStartDate = w\<rparr>)) = set PRAYERS"
  using assms
proof
  assume "dom p = set PRAYERS"
  then show ?thesis
    by (simp add: initialPrayers_def migrate_full)
next
  assume "dom p = set PRAYERS_000"
  then show ?thesis
    using legacy_names_differ
    by (simp add: initialPrayers_def migrate_legacy renameKeys_dom)
qed

text \<open>
  C7 fails on the import path. A backup file written by part\_000 holds the five
  legacy names. The initialiser of the state, and likewise the adoption of a remote
  document by the remote load and the login, migrates such a mapping to the five
  current names; \<open>handleImport\<close> installs it as it is, so the ledger then holds the
  legacy names and none of the current ones but \<open>Maghrib\<close>, and recording a
  completion for \<open>Subuh\<close> throws.
\<close>

theorem handleImport_keeps_legacy_keys:
  "dom (prayers (handleImport (Parsed legacyBackup) typedState)) =
     {''Fajr'', ''Dhuhr'', ''Asr'', ''Maghrib'', ''Isha''} \<and>
   dom (prayers (handleImport (Parsed legacyBackup) typedState)) \<noteq> set PRAYERS \<and>
   dom (initialPrayers (Some legacyBackup)) = set PRAYERS \<and>
   dom (prayers (adoptRemote legacyBackup typedState)) = set PRAYERS \<and>
   handleAddCompleted ''Subuh'' (handleImport (Parsed legacyBackup) typedState) = Inl TypeError"
proof -
  have imported: "prayers (handleImport (Parsed legacyBackup) typedState) = legacyLedger"
    by (simp add: handleImport_def legacyBackup_def Let_def)
  have input: "todayInput (handleImport (Parsed legacyBackup) typedState) = todayInput typedState"
    by (simp add: handleImport_def legacyBackup_def Let_def)
  have "''Subuh'' \<notin> dom legacyLedger" and "''Subuh'' \<in> set PRAYERS"
    by (simp_all add: legacyLedger_dom PRAYERS_def)
  then have keys: "dom legacyLedger \<noteq> set PRAYERS"
    by blast
  have init: "dom (initialPrayers (Some legacyBackup)) = set PRAYERS"
    unfolding legacyBackup_def
    by (rule initialPrayers_keys) (simp add: legacyLedger_dom PRAYERS_000_def)
  have "migratePrayerNames (Some legacyLedger) = Some (renameKeys legacyLedger)"
    using legacyLedger_not_current legacyLedger_has_old by (rule migrate_legacy)
  then have adopt: "dom (prayers (adoptRemote legacyBackup typedState)) = set PRAYERS"
    by (simp add: adoptRemote_def legacyBackup_def Let_def renameKeys_dom)
  have missing: "legacyLedger ''Subuh'' = None"
    by (simp add: legacyLedger_def)
  have throws: "handleAddCompleted ''Subuh'' (handleImport (Parsed legacyBackup) typedState)
      = Inl TypeError"
    by (simp add: handleAddCompleted_def imported input typedState_input missing)
  show ?thesis
    unfolding imported using legacyLedger_dom keys init adopt throws [unfolded imported]
    by (intro conjI)
qed

section \<open>The weekly backup email\<close>

lemma summaryLines_present:
  "set names \<subseteq> dom m \<Longrightarrow>
     summaryLines names m = Inr (map (\<lambda>p. summaryLine p (the (m p))) names)"
  by (induction names) auto

lemma summaryLines_missing:
  "\<not> set names \<subseteq> dom m \<Longrightarrow> summaryLines names m = Inl TypeError"
proof (induction names)
  case Nil
  then show ?case by simp
next
  case (Cons p ps)
  show ?case
  proof (cases "m p")
    case None
    then show ?thesis by simp
  next
    case (Some d)
    with Cons.prems have "\<not> set ps \<subseteq> dom m"
      by auto
    from Cons.IH [OF this] Some show ?thesis
      by simp
  qed
qed

lemma sendBackupEmailFor_guarded:
  "emailSentKey s = Some today \<Longrightarrow> sendBackupEmailFor names m False today s = Inr s"
  by (simp add: sendBackupEmailFor_def)

lemma sendBackupEmailFor_sends:
  "skipGuard \<or> emailSentKey s \<noteq> Some today \<Longrightarrow> set names \<subseteq> dom m \<Longrightarrow>
     sendBackupEmailFor names m skipGuard today s =
       Inr (s\<lparr>outbox := outbox s @
               [\<lparr>subject = ''Solat Qada Weekly Backup - '' @ today,
                 summary = joinLines (map (\<lambda>p. summaryLine p (the (m p))) names),
                 backupData = m\<rparr>]\<rparr>)"
  by (auto simp: sendBackupEmailFor_def summaryLines_present)

text \<open>
  C8: with the guard not bypassed and the marker equal to today's date,
  \<open>sendBackupEmail\<close> returns the state as it is and hands nothing to the email
  service. With the guard bypassed, a snapshot that holds the five prayers is sent
  whatever the marker is: one mail is handed over, with the summary lines of the
  snapshot. When the delivery succeeds, the marker becomes the date of the mail; when
  it fails, the error text is shown in an alert, the marker is unchanged, and an
  attempt that was not blocked before is not blocked afterwards.
\<close>

theorem sendBackupEmail_spec:
  "(emailSentKey s = Some today \<longrightarrow> sendBackupEmail snapshot False today s = Inr s) \<and>
   (set PRAYERS \<subseteq> dom snapshot \<longrightarrow>
      sendBackupEmail snapshot True today s =
        Inr (s\<lparr>outbox := outbox s @
                [\<lparr>subject = ''Solat Qada Weekly Backup - '' @ today,
                  summary = joinLines (map (\<lambda>p. summaryLine p (the (snapshot p))) PRAYERS),
                  backupData = snapshot\<rparr>]\<rparr>)) \<and>
   emailSentKey (emailDelivered today s) = Some today \<and>
   emailSentKey (emailFailed err s) = emailSentKey s \<and>
   alerts (emailFailed err s) = alerts s @ [''Email failed: '' @ err] \<and>
   (set PRAYERS \<subseteq> dom snapshot \<longrightarrow> emailSentKey s \<noteq> Some today \<longrightarrow>
      sendBackupEmail snapshot False today (emailFailed err s) =
        Inr ((emailFailed err s)\<lparr>outbox := outbox s @
                [\<lparr>subject = ''Solat Qada Weekly Backup - '' @ today,
                  summary = joinLines (map (\<lambda>p. summaryLine p (the (snapshot p))) PRAYERS),
                  backupData = snapshot\<rparr>]\<rparr>))"
proof -
  have guarded: "emailSentKey s = Some today \<longrightarrow> sendBackupEmail snapshot False today s = Inr s"
    by (simp add: sendBackupEmail_def sendBackupEmailFor_guarded)
  have forced: "set PRAYERS \<subseteq> dom snapshot \<longrightarrow>
      sendBackupEmail snapshot True today s =
        Inr (s\<lparr>outbox := outbox s @
                [\<lparr>subject = ''Solat Qada Weekly Backup - '' @ today,
                  summary = joinLines (map (\<lambda>p. summaryLine p (the (snapshot p))) PRAYERS),
                  backupData = snapshot\<rparr>]\<rparr>)"
    by (simp add: sendBackupEmail_def sendBackupEmailFor_sends)
  have delivered: "emailSentKey (emailDelivered today s) = Some today"
    by (simp add: emailDelivered_def)
  have failed: "emailSentKey (emailFailed err s) = emailSentKey s"
    and surfaced: "alerts (emailFailed err s) = alerts s @ [''Email failed: '' @ err]"
    by (simp_all add: emailFailed_def)
  have retry: "set PRAYERS \<subseteq> dom snapshot \<longrightarrow> emailSentKey s \<noteq> Some today \<longrightarrow>
      sendBackupEmail snapshot False today (emailFailed err s) =
        Inr ((emailFailed err s)\<lparr>outbox := outbox s @
                [\<lparr>subject = ''Solat Qada Weekly Backup - '' @ today,
                  summary = joinLines (map (\<lambda>p. summaryLine p (the (snapshot p))) PRAYERS),
                  backupData = snapshot\<rparr>]\<rparr>)"
    by (simp add: sendBackupEmail_def sendBackupEmailFor_sends failed) (simp add: emailFailed_def)
  show ?thesis
    by (intro conjI guarded forced delivered failed surfaced retry)
qed

lemma currentLedger_dom: "dom currentLedger = set PRAYERS"
  by (simp add: currentLedger_def PRAYERS_def insert_commute)

lemma currentLedger_summary:
  "joinLines (map (\<lambda>p. summaryLine p (the (currentLedger p))) PRAYERS) =
     ''Subuh: 1 completed | 5 remaining'' @ [CHR 0x0A] @
     ''Zohor: 0 completed | 4 remaining'' @ [CHR 0x0A] @
     ''Asar: 0 completed | 0 remaining'' @ [CHR 0x0A] @
     ''Maghrib: 9 completed | 7 remaining'' @ [CHR 0x0A] @
     ''Isyak: 1 completed | 1 remaining''"
  by code_simp

theorem sendBackupEmail_witness:
  "sendBackupEmail currentLedger False ''2024-01-08'' (busyState\<lparr>emailSentKey := Some ''2024-01-08''\<rparr>)
     = Inr (busyState\<lparr>emailSentKey := Some ''2024-01-08''\<rparr>) \<and>
   sendBackupEmail currentLedger True ''2024-01-08'' (busyState\<lparr>emailSentKey := Some ''2024-01-08''\<rparr>)
     = Inr (busyState\<lparr>emailSentKey := Some ''2024-01-08'',
              outbox := [\<lparr>subject = ''Solat Qada Weekly Backup - 2024-01-08'',
                summary = ''Subuh: 1 completed | 5 remaining'' @ [CHR 0x0A] @
                          ''Zohor: 0 completed | 4 remaining'' @ [CHR 0x0A] @
                          ''Asar: 0 completed | 0 remaining'' @ [CHR 0x0A] @
                          ''Maghrib: 9 completed | 7 remaining'' @ [CHR 0x0A] @
                          ''Isyak: 1 completed | 1 remaining'',
                backupData = currentLedger\<rparr>]\<rparr>) \<and>
   sendBackupEmail currentLedger False ''2024-01-08'' (emailFailed ''timeout'' busyState)
     = Inr (busyState\<lparr>alerts := [''Email failed: timeout''],
              outbox := [\<lparr>subject = ''Solat Qada Weekly Backup - 2024-01-08'',
                summary = ''Subuh: 1 completed | 5 remaining'' @ [CHR 0x0A] @
                          ''Zohor: 0 completed | 4 remaining'' @ [CHR 0x0A] @
                          ''Asar: 0 completed | 0 remaining'' @ [CHR 0x0A] @
                          ''Maghrib: 9 completed | 7 remaining'' @ [CHR 0x0A] @
                          ''Isyak: 1 completed | 1 remaining'',
                backupData = currentLedger\<rparr>]\<rparr>)"
proof -
  have unset: "emailSentKey busyState \<noteq> Some ''2024-01-08''"
    and empty: "outbox busyState = []" "alerts busyState = []"
    by (simp_all add: busyState_def freshState_def)
  show ?thesis
    using sendBackupEmail_spec [of "busyState\<lparr>emailSentKey := Some ''2024-01-08''\<rparr>"
        "''2024-01-08''" currentLedger]
      sendBackupEmail_spec [of busyState "''2024-01-08''" currentLedger "''timeout''"]
    by (simp add: currentLedger_dom currentLedger_summary unset empty)
      (simp add: emailFailed_def empty)
qed

section \<open>Notification on reset\<close>

lemma zeroCompleted_names_apply:
  "zeroCompleted names m k =
     (if k \<in> set names then Some ((spread (m k))\<lparr>completedThisWeek := Num 0\<rparr>) else m k)"
proof (induction names arbitrary: m)
  case Nil
  then show ?case by (simp add: zeroCompleted_def)
next
  case (Cons p ps)
  have "zeroCompleted (p # ps) m =
      zeroCompleted ps (m(p \<mapsto> (spread (m p))\<lparr>completedThisWeek := Num 0\<rparr>))"
    by (simp add: zeroCompleted_def)
  then show ?case
    by (simp add: Cons.IH spread_def)
qed

lemma legacyLedger_summary:
  "joinLines (map (\<lambda>p. summaryLine p (the (legacyLedger p))) PRAYERS_000) =
     ''Fajr: 1 completed | 5 remaining'' @ [CHR 0x0A] @
     ''Dhuhr: 0 completed | 4 remaining'' @ [CHR 0x0A] @
     ''Asr: 0 completed | 0 remaining'' @ [CHR 0x0A] @
     ''Maghrib: 9 completed | 7 remaining'' @ [CHR 0x0A] @
     ''Isha: 1 completed | 1 remaining''"
  by code_simp

text \<open>
  C6, as the code has it. In part\_001 the call of \<open>sendBackupEmail\<close> in \<open>resetWeek\<close>
  is commented out: a reset hands nothing to the email service and touches neither the
  marker nor the alerts. In part\_000 every reset calls \<open>sendBackupEmail(prev, false)\<close>
  before it zeroes the counters: if the marker is not today's date, one mail is handed
  over whose summary and backup are those of the ledger before the reset, and then the
  counters are zeroed and the week start is set; if the marker is today's date, the
  call does nothing and the reset proceeds.
\<close>

theorem resetWeek_notification:
  "outbox (resetWeek now s) = outbox s \<and>
   emailSentKey (resetWeek now s) = emailSentKey s \<and>
   alerts (resetWeek now s) = alerts s \<and>
   (set PRAYERS_000 \<subseteq> dom (prayers s) \<longrightarrow> emailSentKey s \<noteq> Some today \<longrightarrow>
      resetWeek_000 now today s =
        Inr (s\<lparr>outbox := outbox s @
                [\<lparr>subject = ''Solat Qada Weekly Backup - '' @ today,
                  summary = joinLines (map (\<lambda>p. summaryLine p (the (prayers s p))) PRAYERS_000),
                  backupData = prayers s\<rparr>],
               prayers := zeroCompleted PRAYERS_000 (prayers s),
               weekStartDate := now\<rparr>)) \<and>
   (emailSentKey s = Some today \<longrightarrow>
      resetWeek_000 now today s =
        Inr (s\<lparr>prayers := zeroCompleted PRAYERS_000 (prayers s), weekStartDate := now\<rparr>))"
proof -
  have silent: "outbox (resetWeek now s) = outbox s"
    "emailSentKey (resetWeek now s) = emailSentKey s"
    "alerts (resetWeek now s) = alerts s"
    by (simp_all add: resetWeek_def)
  have sends: "set PRAYERS_000 \<subseteq> dom (prayers s) \<longrightarrow> emailSentKey s \<noteq> Some today \<longrightarrow>
      resetWeek_000 now today s =
        Inr (s\<lparr>outbox := outbox s @
                [\<lparr>subject = ''Solat Qada Weekly Backup - '' @ today,
                  summary = joinLines (map (\<lambda>p. summaryLine p (the (prayers s p))) PRAYERS_000),
                  backupData = prayers s\<rparr>],
               prayers := zeroCompleted PRAYERS_000 (prayers s),
               weekStartDate := now\<rparr>)"
    by (simp add: resetWeek_000_def sendBackupEmail_000_def sendBackupEmailFor_sends)
  have guarded: "emailSentKey s = Some today \<longrightarrow>
      resetWeek_000 now today s =
        Inr (s\<lparr>prayers := zeroCompleted PRAYERS_000 (prayers s), weekStartDate := now\<rparr>)"
    by (simp add: resetWeek_000_def sendBackupEmail_000_def sendBackupEmailFor_guarded)
  show ?thesis
    by (intro conjI silent sends guarded)
qed

lemma legacyState_fields:
  "prayers legacyState = legacyLedger"
  "emailSentKey legacyState = None"
  "outbox legacyState = []"
  by (simp_all add: legacyState_def freshState_def)

lemma PRAYERS_000_dom: "set PRAYERS_000 = dom legacyLedger"
  by (simp add: legacyLedger_dom PRAYERS_000_def)

theorem resetWeek_notification_witness:
  "resetWeek_000 691200000 ''1970-01-09'' legacyState =
     Inr (legacyState\<lparr>outbox :=
              [\<lparr>subject = ''Solat Qada Weekly Backup - 1970-01-09'',
                summary = ''Fajr: 1 completed | 5 remaining'' @ [CHR 0x0A] @
                          ''Dhuhr: 0 completed | 4 remaining'' @ [CHR 0x0A] @
                          ''Asr: 0 completed | 0 remaining'' @ [CHR 0x0A] @
                          ''Maghrib: 9 completed | 7 remaining'' @ [CHR 0x0A] @
                          ''Isha: 1 completed | 1 remaining'',
                backupData = legacyLedger\<rparr>],
            prayers := zeroCompleted PRAYERS_000 legacyLedger,
            weekStartDate := 691200000\<rparr>) \<and>
   zeroCompleted PRAYERS_000 legacyLedger ''Fajr'' =
     Some \<lparr>totalQada = Num 5, weeklyTarget = Num 2, completedThisWeek = Num 0\<rparr> \<and>
   resetWeek_000 691200000 ''1970-01-09'' (legacyState\<lparr>emailSentKey := Some ''1970-01-09''\<rparr>) =
     Inr (legacyState\<lparr>emailSentKey := Some ''1970-01-09'',
            prayers := zeroCompleted PRAYERS_000 legacyLedger,
            weekStartDate := 691200000\<rparr>)"
proof -
  have zeroed: "zeroCompleted PRAYERS_000 legacyLedger ''Fajr'' =
      Some \<lparr>totalQada = Num 5, weeklyTarget = Num 2, completedThisWeek = Num 0\<rparr>"
    by (simp add: zeroCompleted_names_apply PRAYERS_000_def legacyLedger_def spread_def)
  show ?thesis
    using resetWeek_notification [of 691200000 legacyState "''1970-01-09''"]
      resetWeek_notification [of 691200000 "legacyState\<lparr>emailSentKey := Some ''1970-01-09''\<rparr>"
        "''1970-01-09''"]
    by (simp add: legacyState_fields PRAYERS_000_dom legacyLedger_summary zeroed)
qed

text \<open>
  The claim C6 as stated fails on part\_001: a cycle that began eight days ago has
  expired and the marker is not set, so a call of \<open>sendBackupEmail\<close> on the ledger
  would hand over a mail; yet the reset, whether invoked directly or by the auto-reset
  effect, leaves the outbox empty and the marker unset.
\<close>

theorem resetWeek_notification_counterexample:
  "shouldAutoReset 691200000 (weekStartDate busyState) \<and>
   emailSentKey busyState = None \<and>
   outbox busyState = [] \<and>
   sendBackupEmail (prayers busyState) False ''1970-01-09'' busyState \<noteq> Inr busyState \<and>
   outbox (resetWeek 691200000 busyState) = [] \<and>
   outbox (autoResetEffect 691200000 busyState) = [] \<and>
   emailSentKey (autoResetEffect 691200000 busyState) = None \<and>
   prayers (autoResetEffect 691200000 busyState) ''Subuh'' =
     Some \<lparr>totalQada = Num 5, weeklyTarget = Num 2, completedThisWeek = Num 0\<rparr>"
proof -
  have fields: "weekStartDate busyState = 0" "emailSentKey busyState = None"
    "outbox busyState = []" "prayers busyState = currentLedger"
    by (simp_all add: busyState_def freshState_def initialWeekStartDate_def)
  have expired: "shouldAutoReset 691200000 (weekStartDate busyState)"
    by (simp add: fields shouldAutoReset_iff)
  have "sendBackupEmail currentLedger False ''1970-01-09'' busyState =
      Inr (busyState\<lparr>outbox := outbox busyState @
              [\<lparr>subject = ''Solat Qada Weekly Backup - '' @ ''1970-01-09'',
                summary = joinLines (map (\<lambda>p. summaryLine p (the (currentLedger p))) PRAYERS),
                backupData = currentLedger\<rparr>]\<rparr>)"
    unfolding sendBackupEmail_def
    by (rule sendBackupEmailFor_sends) (simp_all add: fields currentLedger_dom)
  then have "outbox (projr (sendBackupEmail currentLedger False ''1970-01-09'' busyState)) \<noteq> []"
    by simp
  then have would_send: "sendBackupEmail (prayers busyState) False ''1970-01-09'' busyState \<noteq> Inr busyState"
    using fields by auto
  have quiet: "outbox (resetWeek 691200000 busyState) = []"
    "emailSentKey (resetWeek 691200000 busyState) = None"
    by (simp_all add: resetWeek_def fields)
  have zeroed: "prayers (resetWeek 691200000 busyState) ''Subuh'' =
      Some \<lparr>totalQada = Num 5, weeklyTarget = Num 2, completedThisWeek = Num 0\<rparr>"
    by (simp add: resetWeek_def zeroCompleted_names_apply fields PRAYERS_def currentLedger_def spread_def)
  have effect: "autoResetEffect 691200000 busyState = resetWeek 691200000 busyState"
    using expired by (simp add: autoResetEffect_def)
  show ?thesis
    unfolding effect using expired fields(2,3) would_send quiet zeroed
    by (intro conjI)
qed

section \<open>Suppression of the remote save after a load\<close>

lemma persistEffect_consumes: "skipNextSync (persistEffect online s) = False"
  by (simp add: persistEffect_def Let_def split: option.splits)

lemma persistEffect_cache:
  "cache (persistEffect online s) =
     Some \<lparr>doc_prayers = Some (prayers s), doc_weekStartDate = Some (weekStartDate s)\<rparr>"
  by (simp add: persistEffect_def Let_def split: option.splits)

lemma persistEffect_suppressed:
  "skipNextSync s \<Longrightarrow>
     remoteSaves (persistEffect online s) = remoteSaves s \<and>
     remote (persistEffect online s) = remote s"
  by (simp add: persistEffect_def Let_def)

lemma persistEffect_saves:
  "\<not> skipNextSync s \<Longrightarrow> currentUser s = Some u \<Longrightarrow>
     remoteSaves (persistEffect online s) =
       remoteSaves s @ [(u, \<lparr>doc_prayers = Some (prayers s),
                             doc_weekStartDate = Some (weekStartDate s)\<rparr>)]"
  by (simp add: persistEffect_def Let_def)

lemma persistEffect_frame:
  "currentUser (persistEffect online s) = currentUser s"
  "prayers (persistEffect online s) = prayers s"
  "weekStartDate (persistEffect online s) = weekStartDate s"
  by (simp_all add: persistEffect_def Let_def split: option.splits)

lemma adoptRemote_flag:
  "doc_prayers data \<noteq> None \<Longrightarrow>
     skipNextSync (adoptRemote data s) \<and> remoteSaves (adoptRemote data s) = remoteSaves s"
  by (auto simp: adoptRemote_def Let_def)

lemma loadEffect_flag:
  "currentUser s = Some u \<Longrightarrow> loadFromFirestore (remote s) u = Some data \<Longrightarrow>
     doc_prayers data \<noteq> None \<Longrightarrow>
     skipNextSync (loadEffect True s) \<and> remoteSaves (loadEffect True s) = remoteSaves s"
  using adoptRemote_flag [of data s] by (simp add: loadEffect_def)

lemma handleLogin_flag:
  "trim (loginUsername s) \<noteq> [] \<Longrightarrow> trim (loginPin s) \<noteq> [] \<Longrightarrow>
     loginUser (remote s) (trim (loginUsername s)) (trim (loginPin s)) = AuthOk (Some data) \<Longrightarrow>
     doc_prayers data \<noteq> None \<Longrightarrow>
     skipNextSync (handleLogin True s) \<and> remoteSaves (handleLogin True s) = remoteSaves s"
  using adoptRemote_flag [of data]
  by (simp add: handleLogin_def Let_def)

lemma handleImport_flag:
  "skipNextSync (handleImport f s) = skipNextSync s"
  "currentUser (handleImport f s) = currentUser s"
  "remoteSaves (handleImport f s) = remoteSaves s"
  by (simp_all add: handleImport_def Let_def split: backup_file.splits option.splits)

lemma renderCards_ok: "set names \<subseteq> dom m \<Longrightarrow> renderCards names m = Inr ()"
  by (induction names) auto

lemma renderCards_throws: "\<not> set names \<subseteq> dom m \<Longrightarrow> renderCards names m = Inl TypeError"
proof (induction names)
  case Nil
  then show ?case by simp
next
  case (Cons p ps)
  show ?case
  proof (cases "m p")
    case None
    then show ?thesis by simp
  next
    case (Some d)
    with Cons.prems have "\<not> set ps \<subseteq> dom m"
      by auto
    from Cons.IH [OF this] Some show ?thesis
      by simp
  qed
qed

lemma renderAndPersist_ok:
  "currentUser s = None \<or> set PRAYERS \<subseteq> dom (prayers s) \<Longrightarrow>
     renderAndPersist online s = Inr (persistEffect online s)"
  by (cases "currentUser s") (auto simp: renderAndPersist_def renderApp_def renderCards_ok)

lemma renderAndPersist_throws:
  "currentUser s = Some u \<Longrightarrow> \<not> set PRAYERS \<subseteq> dom (prayers s) \<Longrightarrow>
     renderAndPersist online s = Inl TypeError"
  by (simp add: renderAndPersist_def renderApp_def renderCards_throws)

lemma renderAndPersist_Inr:
  "renderAndPersist online s = Inr s' \<Longrightarrow> s' = persistEffect online s"
  by (simp add: renderAndPersist_def split: sum.splits)

lemma handleImport_replaces:
  "prayers (handleImport (Parsed d) s) = (case doc_prayers d of Some p \<Rightarrow> p | None \<Rightarrow> prayers s)"
  "weekStartDate (handleImport (Parsed d) s) =
     (case doc_weekStartDate d of Some w \<Rightarrow> w | None \<Rightarrow> weekStartDate s)"
  by (simp_all add: handleImport_def Let_def split: option.splits)

text \<open>An imported mapping that lacks a current name makes the render throw while a
  user is logged in, and then no persist effect runs.\<close>

lemma handleImport_render_throws:
  "currentUser s = Some u \<Longrightarrow> doc_prayers d = Some p \<Longrightarrow> \<not> set PRAYERS \<subseteq> dom p \<Longrightarrow>
     renderAndPersist online (handleImport (Parsed d) s) = Inl TypeError"
  by (rule renderAndPersist_throws [of _ u]) (simp_all add: handleImport_flag handleImport_replaces)

text \<open>
  C9, as the code has it. The persist effect always writes the local cache and always
  leaves the flag off; when the flag is on it issues no remote save, and when the flag
  is off and a user is logged in it issues one. The remote load and the login set the
  flag when the remote document holds a ledger, so the persist effect that follows them
  issues no remote save (nor does any persist run after the render that follows them),
  and the persist effect after that one issues a save again. The import replaces the
  ledger and the week start by those of the file and does not touch the flag: when the
  flag is off, a user is logged in and the imported ledger holds the five current
  names \<open>Subuh\<close>, \<open>Zohor\<close>, \<open>Asar\<close>, \<open>Maghrib\<close>, \<open>Isyak\<close>, the render succeeds and
  the persist effect that follows issues a remote save of the imported ledger.
\<close>

theorem skipNextSync_spec:
  "skipNextSync (persistEffect online s) = False \<and>
   cache (persistEffect online s) =
     Some \<lparr>doc_prayers = Some (prayers s), doc_weekStartDate = Some (weekStartDate s)\<rparr> \<and>
   (skipNextSync s \<longrightarrow>
      remoteSaves (persistEffect online s) = remoteSaves s \<and>
      remote (persistEffect online s) = remote s) \<and>
   (currentUser s = Some u \<longrightarrow> loadFromFirestore (remote s) u = Some data \<longrightarrow>
      doc_prayers data \<noteq> None \<longrightarrow>
      skipNextSync (loadEffect True s) \<and>
      remoteSaves (persistEffect online (loadEffect True s)) = remoteSaves s \<and>
      (\<forall>s'. renderAndPersist online (loadEffect True s) = Inr s' \<longrightarrow>
            remoteSaves s' = remoteSaves s \<and> \<not> skipNextSync s')) \<and>
   (trim (loginUsername s) \<noteq> [] \<longrightarrow> trim (loginPin s) \<noteq> [] \<longrightarrow>
      loginUser (remote s) (trim (loginUsername s)) (trim (loginPin s)) = AuthOk (Some data) \<longrightarrow>
      doc_prayers data \<noteq> None \<longrightarrow>
      skipNextSync (handleLogin True s) \<and>
      remoteSaves (persistEffect online (handleLogin True s)) = remoteSaves s \<and>
      (\<forall>s'. renderAndPersist online (handleLogin True s) = Inr s' \<longrightarrow>
            remoteSaves s' = remoteSaves s \<and> \<not> skipNextSync s')) \<and>
   (skipNextSync s \<longrightarrow> currentUser s = Some u \<longrightarrow>
      remoteSaves (persistEffect online' (persistEffect online s)) =
        remoteSaves s @ [(u, \<lparr>doc_prayers = Some (prayers s),
                              doc_weekStartDate = Some (weekStartDate s)\<rparr>)]) \<and>
   skipNextSync (handleImport f s) = skipNextSync s \<and>
   prayers (handleImport (Parsed d) s) =
     (case doc_prayers d of Some p \<Rightarrow> p | None \<Rightarrow> prayers s) \<and>
   weekStartDate (handleImport (Parsed d) s) =
     (case doc_weekStartDate d of Some w \<Rightarrow> w | None \<Rightarrow> weekStartDate s) \<and>
   (\<not> skipNextSync s \<longrightarrow> currentUser s = Some u \<longrightarrow>
      {''Subuh'', ''Zohor'', ''Asar'', ''Maghrib'', ''Isyak''} \<subseteq> dom (prayers (handleImport f s)) \<longrightarrow>
      renderAndPersist online (handleImport f s) = Inr (persistEffect online (handleImport f s)) \<and>
      remoteSaves (persistEffect online (handleImport f s)) =
        remoteSaves s @ [(u, \<lparr>doc_prayers = Some (prayers (handleImport f s)),
                              doc_weekStartDate = Some (weekStartDate (handleImport f s))\<rparr>)])"
proof -
  have load: "currentUser s = Some u \<longrightarrow> loadFromFirestore (remote s) u = Some data \<longrightarrow>
      doc_prayers data \<noteq> None \<longrightarrow>
      skipNextSync (loadEffect True s) \<and>
      remoteSaves (persistEffect online (loadEffect True s)) = remoteSaves s \<and>
      (\<forall>s'. renderAndPersist online (loadEffect True s) = Inr s' \<longrightarrow>
            remoteSaves s' = remoteSaves s \<and> \<not> skipNextSync s')"
    using loadEffect_flag [of s u data] persistEffect_suppressed [of "loadEffect True s" online]
      renderAndPersist_Inr [of online "loadEffect True s"]
      persistEffect_consumes [of online "loadEffect True s"]
    by auto
  have login: "trim (loginUsername s) \<noteq> [] \<longrightarrow> trim (loginPin s) \<noteq> [] \<longrightarrow>
      loginUser (remote s) (trim (loginUsername s)) (trim (loginPin s)) = AuthOk (Some data) \<longrightarrow>
      doc_prayers data \<noteq> None \<longrightarrow>
      skipNextSync (handleLogin True s) \<and>
      remoteSaves (persistEffect online (handleLogin True s)) = remoteSaves s \<and>
      (\<forall>s'. renderAndPersist online (handleLogin True s) = Inr s' \<longrightarrow>
            remoteSaves s' = remoteSaves s \<and> \<not> skipNextSync s')"
    using handleLogin_flag [of s data] persistEffect_suppressed [of "handleLogin True s" online]
      renderAndPersist_Inr [of online "handleLogin True s"]
      persistEffect_consumes [of online "handleLogin True s"]
    by auto
  have next_save: "skipNextSync s \<longrightarrow> currentUser s = Some u \<longrightarrow>
      remoteSaves (persistEffect online' (persistEffect online s)) =
        remoteSaves s @ [(u, \<lparr>doc_prayers = Some (prayers s),
                              doc_weekStartDate = Some (weekStartDate s)\<rparr>)]"
    using persistEffect_saves [of "persistEffect online s" u online']
      persistEffect_suppressed [of s online]
    by (simp add: persistEffect_consumes persistEffect_frame)
  have suppressed: "skipNextSync s \<longrightarrow>
      remoteSaves (persistEffect online s) = remoteSaves s \<and>
      remote (persistEffect online s) = remote s"
    using persistEffect_suppressed [of s online] by simp
  have import_save: "\<not> skipNextSync s \<longrightarrow> currentUser s = Some u \<longrightarrow>
      {''Subuh'', ''Zohor'', ''Asar'', ''Maghrib'', ''Isyak''} \<subseteq> dom (prayers (handleImport f s)) \<longrightarrow>
      renderAndPersist online (handleImport f s) = Inr (persistEffect online (handleImport f s)) \<and>
      remoteSaves (persistEffect online (handleImport f s)) =
        remoteSaves s @ [(u, \<lparr>doc_prayers = Some (prayers (handleImport f s)),
                              doc_weekStartDate = Some (weekStartDate (handleImport f s))\<rparr>)]"
    using persistEffect_saves [of "handleImport f s" u online]
      renderAndPersist_ok [of "handleImport f s" online]
    unfolding PRAYERS_set
    by (simp add: handleImport_flag)
  show ?thesis
    by (intro conjI persistEffect_consumes persistEffect_cache suppressed load login next_save
        handleImport_flag(1) handleImport_replaces import_save)
qed

lemma remoteState_fields:
  "currentUser remoteState = Some ''alice''"
  "loadFromFirestore (remote remoteState) ''alice'' = Some legacyBackup"
  "doc_prayers legacyBackup \<noteq> None"
  "remoteSaves remoteState = []"
  "skipNextSync remoteState = False"
  "trim (loginUsername remoteState) = ''alice''"
  "trim (loginPin remoteState) = ''1234''"
  by (simp_all add: remoteState_def aliceState_def busyState_def freshState_def legacyBackup_def
      loadFromFirestore_def toLowerCase_def lowerChar_def trim_def isWhiteSpace_def)

lemma remoteState_login:
  "loginUser (remote remoteState) ''alice'' ''1234'' = AuthOk (Some legacyBackup)"
  by (simp add: remoteState_def loginUser_def toLowerCase_def lowerChar_def)

lemma freshBackup_import:
  "prayers (handleImport (Parsed freshBackup) remoteState) = getDefaultPrayerData"
  "weekStartDate (handleImport (Parsed freshBackup) remoteState) = 5000"
  by (simp_all add: handleImport_def freshBackup_def Let_def)

theorem skipNextSync_witness:
  "skipNextSync (loadEffect True remoteState) \<and>
   remoteSaves (persistEffect True (loadEffect True remoteState)) = [] \<and>
   skipNextSync (handleLogin True remoteState) \<and>
   remoteSaves (persistEffect True (handleLogin True remoteState)) = [] \<and>
   skipNextSync (persistEffect True (loadEffect True remoteState)) = False \<and>
   renderAndPersist True (handleImport (Parsed freshBackup) remoteState) =
     Inr (persistEffect True (handleImport (Parsed freshBackup) remoteState)) \<and>
   remoteSaves (persistEffect True (handleImport (Parsed freshBackup) remoteState)) =
     [(''alice'', \<lparr>doc_prayers = Some getDefaultPrayerData, doc_weekStartDate = Some 5000\<rparr>)]"
proof -
  have keys: "dom getDefaultPrayerData = {''Subuh'', ''Zohor'', ''Asar'', ''Maghrib'', ''Isyak''}"
    using getDefaultPrayerData_dom by (simp add: PRAYERS_set)
  show ?thesis
    using skipNextSync_spec [where online = True and s = remoteState and u = "''alice''"
        and data = legacyBackup and f = "Parsed freshBackup"]
      skipNextSync_spec [where online = True and s = "loadEffect True remoteState"]
    by (simp add: remoteState_fields remoteState_login freshBackup_import keys)
qed

text \<open>
  The claim C9 as stated fails for the import: with a user logged in and the flag off,
  \<open>handleImport\<close> replaces the ledger by that of the backup file and leaves the flag
  off, and the persist effect that follows issues a remote save of the imported
  ledger.
\<close>

theorem skipNextSync_counterexample:
  "currentUser remoteState = Some ''alice'' \<and>
   prayers (handleImport (Parsed freshBackup) remoteState) = getDefaultPrayerData \<and>
   weekStartDate (handleImport (Parsed freshBackup) remoteState) = 5000 \<and>
   skipNextSync (handleImport (Parsed freshBackup) remoteState) = False \<and>
   remoteSaves remoteState = [] \<and>
   remoteSaves (persistEffect True (handleImport (Parsed freshBackup) remoteState)) =
     [(''alice'', freshBackup)]"
proof -
  have imported: "handleImport (Parsed freshBackup) remoteState =
      remoteState\<lparr>prayers := getDefaultPrayerData, weekStartDate := 5000\<rparr>"
    by (simp add: handleImport_def freshBackup_def Let_def)
  show ?thesis
    unfolding imported
    by (simp add: remoteState_fields persistEffect_def Let_def freshBackup_def)
qed

end
